theory Spec2Isabelle
  imports Complex_Main "HOL-Library.Product_Lexorder" "HOL-Library.Multiset"
begin

section \<open>The task record (models/Task.js)\<close>

text \<open>
  The backend keeps one MongoDB collection of task documents. An ObjectId is opaque and
  is modelled as a natural number; a JavaScript \<^verbatim>\<open>Date\<close> is its
  \<^verbatim>\<open>getTime()\<close> value, an integer number of milliseconds. A JavaScript string is
  the list of its UTF-16 code units; \<open>js\<close> embeds a literal. The two string enums
  of the schema are datatypes: a request carrying any other string is turned away by the
  route's \<^verbatim>\<open>isIn\<close> validator before the handler body runs.
\<close>

type_synonym oid = nat
type_synonym time = int
type_synonym jsstring = "nat list"

definition js :: "string \<Rightarrow> jsstring" where
  "js s = map of_char s"

datatype task_status = Pending | InProgress | Completed
datatype task_priority = Low | Medium | High

record task =
  tid :: oid
  user :: oid
  title :: jsstring
  description :: jsstring
  status :: task_status
  deadline :: time
  priority :: task_priority
  tags :: "jsstring list"
  completedAt :: "time option"
  createdAt :: time
  updatedAt :: time

text \<open>
  The collection is the list of its documents in insertion order. Mongoose draws a new
  ObjectId for every document created without one and never hands out one that is or
  was in use; the counter \<open>nextId\<close> stands for that generator, and it moves past every
  identifier a request brings along.
\<close>

record store =
  docs :: "task list"
  nextId :: oid

definition emptyStore :: store where
  "emptyStore = \<lparr>docs = [], nextId = 0\<rparr>"

text \<open>
  What a handler answers when it does not answer with data:
  \<^item> \<open>ValidationFailed\<close>: the express-validator chain found an error
    (status 400, message "Validation failed");
  \<^item> \<open>ErrorResponse msg code\<close>: the handler called
    \<^verbatim>\<open>next(new ErrorResponse(msg, code))\<close>;
  \<^item> \<open>ValidationError msgs\<close>: a Mongoose schema validator rejected the write;
  \<^item> \<open>MongoServerError code\<close>: the database refused the write (11000: duplicate
    \<^verbatim>\<open>_id\<close>).
\<close>

datatype error =
    ValidationFailed
  | ErrorResponse string nat
  | ValidationError "string list"
  | MongoServerError nat

section \<open>Sanitizers and validators (express-validator)\<close>

text \<open>
  \<^verbatim>\<open>trim()\<close> strips leading and trailing white space, the characters the regular
  expression class \<^verbatim>\<open>\s\<close> matches; \<^verbatim>\<open>String.prototype.trim\<close>, which Mongoose's
  \<^verbatim>\<open>trim: true\<close> calls, strips the same characters.
\<close>

definition isWhiteSpace :: "nat \<Rightarrow> bool" where
  "isWhiteSpace c =
     (c = 0x09 \<or> c = 0x0A \<or> c = 0x0B \<or> c = 0x0C \<or> c = 0x0D \<or> c = 0x20 \<or> c = 0xA0
      \<or> c = 0x1680 \<or> (0x2000 \<le> c \<and> c \<le> 0x200A) \<or> c = 0x2028 \<or> c = 0x2029
      \<or> c = 0x202F \<or> c = 0x205F \<or> c = 0x3000 \<or> c = 0xFEFF)"

definition trim :: "jsstring \<Rightarrow> jsstring" where
  "trim s = rev (dropWhile isWhiteSpace (rev (dropWhile isWhiteSpace s)))"

text \<open>
  \<^verbatim>\<open>isLength({min, max})\<close> of validator.js does not compare \<^verbatim>\<open>str.length\<close>: it
  first takes off the number of surrogate pairs (matches of
  \<^verbatim>\<open>/[\uD800-\uDBFF][\uDC00-\uDFFF]/g\<close>) and of variation selectors (matches of
  \<^verbatim>\<open>/(\uFE0F|\uFE0E)/g\<close>).
\<close>

fun surrogatePairs :: "jsstring \<Rightarrow> nat" where
  "surrogatePairs (h # l # rest) =
     (if 0xD800 \<le> h \<and> h \<le> 0xDBFF \<and> 0xDC00 \<le> l \<and> l \<le> 0xDFFF
        then Suc (surrogatePairs rest) else surrogatePairs (l # rest))"
| "surrogatePairs _ = 0"

definition presentationSequences :: "jsstring \<Rightarrow> nat" where
  "presentationSequences s = length (filter (\<lambda>c. c = 0xFE0F \<or> c = 0xFE0E) s)"

definition isLength :: "nat \<Rightarrow> nat \<Rightarrow> jsstring \<Rightarrow> bool" where
  "isLength lo hi s =
     (let len = length s - presentationSequences s - surrogatePairs s
      in lo \<le> len \<and> len \<le> hi)"

text \<open>
  The body of POST /api/tasks. The route validates six keys: title, description and
  deadline are not optional (a missing title or description reaches the validator as
  the empty string; the deadline is the date \<^verbatim>\<open>isISO8601().toDate()\<close> parsed),
  priority, status and tags are. The handler hands the whole body to
  \<^verbatim>\<open>Task.create\<close>, so two more keys reach the document when the body carries them:
  \<^verbatim>\<open>_id\<close> and \<^verbatim>\<open>completedAt\<close> (absent, null or a date). A \<^verbatim>\<open>user\<close> key is
  overwritten by the handler. Values Mongoose cannot cast, and the keys
  \<^verbatim>\<open>createdAt\<close>, \<^verbatim>\<open>updatedAt\<close> and \<^verbatim>\<open>__v\<close>, are not modelled.
\<close>

record create_body =
  cb_title :: jsstring
  cb_description :: jsstring
  cb_deadline :: time
  cb_priority :: "task_priority option"
  cb_status :: "task_status option"
  cb_tags :: "jsstring list option"
  cb_id :: "oid option"
  cb_completedAt :: "time option option"

text \<open>
  The body of PUT /api/tasks/:id: every validated key is optional, and the whole body
  goes to \<^verbatim>\<open>findByIdAndUpdate\<close>, so \<^verbatim>\<open>completedAt\<close> and \<^verbatim>\<open>user\<close> are written
  when the body carries them. The keys \<^verbatim>\<open>_id\<close>, \<^verbatim>\<open>createdAt\<close>, \<^verbatim>\<open>updatedAt\<close>
  and \<^verbatim>\<open>__v\<close> are not modelled.
\<close>

record update_body =
  ub_title :: "jsstring option"
  ub_description :: "jsstring option"
  ub_deadline :: "time option"
  ub_priority :: "task_priority option"
  ub_status :: "task_status option"
  ub_tags :: "jsstring list option"
  ub_completedAt :: "time option option"
  ub_user :: "oid option"

definition validTags :: "jsstring list option \<Rightarrow> bool" where
  "validTags ts = (case ts of None \<Rightarrow> True
                   | Some gs \<Rightarrow> list_all (\<lambda>g. isLength 0 50 (trim g)) gs)"

definition validateCreate :: "create_body \<Rightarrow> bool" where
  "validateCreate b =
     (isLength 1 200 (trim (cb_title b)) \<and>
      isLength 1 1000 (trim (cb_description b)) \<and>
      validTags (cb_tags b))"

definition validateUpdate :: "update_body \<Rightarrow> bool" where
  "validateUpdate b =
     ((case ub_title b of None \<Rightarrow> True | Some x \<Rightarrow> isLength 1 200 (trim x)) \<and>
      (case ub_description b of None \<Rightarrow> True | Some x \<Rightarrow> isLength 1 1000 (trim x)) \<and>
      validTags (ub_tags b))"

section \<open>Schema validators and the pre-save hook (models/Task.js)\<close>

text \<open>
  The messages of the schema validators that fail on a document: \<^verbatim>\<open>required\<close> and
  \<^verbatim>\<open>maxlength\<close> of title and description, the deadline's custom validator
  \<^verbatim>\<open>value > new Date()\<close>, and \<^verbatim>\<open>maxlength\<close> of each tag. Mongoose compares
  \<^verbatim>\<open>maxlength\<close> with the string's \<^verbatim>\<open>length\<close>, its number of code units.
\<close>

definition schemaErrors :: "time \<Rightarrow> task \<Rightarrow> string list" where
  "schemaErrors now t =
     (if title t = [] then [''Task title is required''] else []) @
     (if 200 < length (title t) then [''Title cannot exceed 200 characters''] else []) @
     (if description t = [] then [''Task description is required''] else []) @
     (if 1000 < length (description t)
        then [''Description cannot exceed 1000 characters''] else []) @
     (if now < deadline t then [] else [''Deadline must be in the future'']) @
     concat (map (\<lambda>g. if 50 < length g then [''Tag cannot exceed 50 characters''] else [])
               (tags t))"

text \<open>
  \<^verbatim>\<open>taskSchema.pre('save', ...)\<close>. The first argument is
  \<^verbatim>\<open>this.isModified('status')\<close>. A \<^verbatim>\<open>Date\<close> object is always truthy, so
  \<^verbatim>\<open>!this.completedAt\<close> holds exactly when the field is null.
\<close>

definition preSave :: "bool \<Rightarrow> time \<Rightarrow> task \<Rightarrow> task" where
  "preSave statusModified now t =
     (if statusModified then
        (if status t = Completed \<and> completedAt t = None
           then t\<lparr>completedAt := Some now\<rparr>
         else if status t \<noteq> Completed then t\<lparr>completedAt := None\<rparr>
         else t)
      else t)"

section \<open>Model operations (Mongoose)\<close>

text \<open>
  The instants at which \<^verbatim>\<open>Task.create\<close> reads the clock: one read by the
  deadline validator, one by the timestamps option and one by the pre-save hook.
\<close>

record save_clock =
  validatedAt :: time
  stampedAt :: time
  hookAt :: time

text \<open>
  \<^verbatim>\<open>Task.create(req.body)\<close>: the document is built from the body with the schema
  defaults (status Pending, priority Medium, no tags, completedAt null), the schema
  setters trim title, description and tags, the validators run, the timestamps option
  sets createdAt and updatedAt, the pre-save hook runs, and the document is inserted.
  The status path counts as modified when the body set it. A document that brings its
  own \<^verbatim>\<open>_id\<close> is refused by the database when the identifier is in use.
\<close>

definition Task_create ::
    "store \<Rightarrow> oid \<Rightarrow> save_clock \<Rightarrow> create_body \<Rightarrow> (error + task) \<times> store" where
  "Task_create s uid clk b =
     (let doc = \<lparr>tid = (case cb_id b of None \<Rightarrow> nextId s | Some j \<Rightarrow> j), user = uid,
                 title = trim (cb_title b),
                 description = trim (cb_description b),
                 status = (case cb_status b of None \<Rightarrow> Pending | Some x \<Rightarrow> x),
                 deadline = cb_deadline b,
                 priority = (case cb_priority b of None \<Rightarrow> Medium | Some x \<Rightarrow> x),
                 tags = (case cb_tags b of None \<Rightarrow> [] | Some gs \<Rightarrow> map trim gs),
                 completedAt = (case cb_completedAt b of None \<Rightarrow> None | Some c \<Rightarrow> c),
                 createdAt = stampedAt clk, updatedAt = stampedAt clk\<rparr>
      in if schemaErrors (validatedAt clk) doc \<noteq> []
           then (Inl (ValidationError (schemaErrors (validatedAt clk) doc)), s)
         else let saved = preSave (cb_status b \<noteq> None) (hookAt clk) doc
              in case cb_id b of
                   None \<Rightarrow> (Inr saved, s\<lparr>docs := docs s @ [saved], nextId := Suc (nextId s)\<rparr>)
                 | Some j \<Rightarrow>
                     if j \<in> tid ` set (docs s) then (Inl (MongoServerError 11000), s)
                     else (Inr saved, s\<lparr>docs := docs s @ [saved],
                                        nextId := max (nextId s) (Suc j)\<rparr>))"

text \<open>\<^verbatim>\<open>Task.findOne({_id: id, user: uid})\<close>.\<close>

definition Task_findOne :: "store \<Rightarrow> oid \<Rightarrow> oid \<Rightarrow> task option" where
  "Task_findOne s tid' uid = find (\<lambda>t. tid t = tid' \<and> user t = uid) (docs s)"

fun updateFirst :: "('a \<Rightarrow> bool) \<Rightarrow> ('a \<Rightarrow> 'a) \<Rightarrow> 'a list \<Rightarrow> 'a list" where
  "updateFirst P f [] = []"
| "updateFirst P f (x # xs) = (if P x then f x # xs else x # updateFirst P f xs)"

fun removeFirst :: "('a \<Rightarrow> bool) \<Rightarrow> 'a list \<Rightarrow> 'a list" where
  "removeFirst P [] = []"
| "removeFirst P (x # xs) = (if P x then xs else x # removeFirst P xs)"

text \<open>
  The \<^verbatim>\<open>$set\<close> that \<^verbatim>\<open>findByIdAndUpdate(id, req.body)\<close> sends: the fields the
  body holds, and updatedAt from the timestamps option. Query middleware is not document
  middleware: the pre-save hook does not run on this path, and the schema registers no
  hook for \<^verbatim>\<open>findOneAndUpdate\<close>.
\<close>

definition applyUpdate :: "update_body \<Rightarrow> time \<Rightarrow> task \<Rightarrow> task" where
  "applyUpdate b now t =
     t\<lparr>title := (case ub_title b of None \<Rightarrow> title t | Some x \<Rightarrow> trim x),
       description := (case ub_description b of None \<Rightarrow> description t | Some x \<Rightarrow> trim x),
       deadline := (case ub_deadline b of None \<Rightarrow> deadline t | Some d \<Rightarrow> d),
       priority := (case ub_priority b of None \<Rightarrow> priority t | Some p \<Rightarrow> p),
       status := (case ub_status b of None \<Rightarrow> status t | Some x \<Rightarrow> x),
       tags := (case ub_tags b of None \<Rightarrow> tags t | Some gs \<Rightarrow> map trim gs),
       completedAt := (case ub_completedAt b of None \<Rightarrow> completedAt t | Some c \<Rightarrow> c),
       user := (case ub_user b of None \<Rightarrow> user t | Some u \<Rightarrow> u),
       updatedAt := now\<rparr>"

text \<open>
  With \<^verbatim>\<open>runValidators: true\<close> the validators of the paths in the update run on the
  new values.
\<close>

definition updateErrors :: "time \<Rightarrow> update_body \<Rightarrow> string list" where
  "updateErrors now b =
     (case ub_title b of None \<Rightarrow> []
      | Some x \<Rightarrow> (if trim x = [] then [''Task title is required''] else []) @
                 (if 200 < length (trim x)
                    then [''Title cannot exceed 200 characters''] else [])) @
     (case ub_description b of None \<Rightarrow> []
      | Some x \<Rightarrow> (if trim x = [] then [''Task description is required''] else []) @
                 (if 1000 < length (trim x)
                    then [''Description cannot exceed 1000 characters''] else [])) @
     (case ub_deadline b of None \<Rightarrow> []
      | Some d \<Rightarrow> if now < d then [] else [''Deadline must be in the future'']) @
     (case ub_tags b of None \<Rightarrow> []
      | Some gs \<Rightarrow> concat (map (\<lambda>g. if 50 < length (trim g)
                                     then [''Tag cannot exceed 50 characters''] else []) gs))"

definition Task_findByIdAndUpdate ::
    "store \<Rightarrow> time \<Rightarrow> oid \<Rightarrow> update_body \<Rightarrow> (error + task option) \<times> store" where
  "Task_findByIdAndUpdate s now tid' b =
     (if updateErrors now b \<noteq> [] then (Inl (ValidationError (updateErrors now b)), s)
      else let ds = updateFirst (\<lambda>t. tid t = tid') (applyUpdate b now) (docs s)
           in (Inr (find (\<lambda>t. tid t = tid') ds), s\<lparr>docs := ds\<rparr>))"

text \<open>\<^verbatim>\<open>Task.findByIdAndDelete(id)\<close>.\<close>

definition Task_findByIdAndDelete :: "store \<Rightarrow> oid \<Rightarrow> store" where
  "Task_findByIdAndDelete s tid' = s\<lparr>docs := removeFirst (\<lambda>t. tid t = tid') (docs s)\<rparr>"

section \<open>Route handlers (routes/tasks.js)\<close>

text \<open>
  Every handler takes the store, the authenticated user (\<^verbatim>\<open>req.user.id\<close>) and, where
  it reads the clock, the time of the request. It returns the response and the store it
  leaves. \<^verbatim>\<open>populate('user', 'name email')\<close> only adds the owner's name and e-mail
  to the response; the user reference is kept as it is.
\<close>

definition notFound :: error where
  "notFound = ErrorResponse ''Task not found'' 404"

definition deadlineError :: error where
  "deadlineError = ErrorResponse ''Deadline must be in the future'' 400"

text \<open>GET /api/tasks/:id\<close>

definition getTask :: "store \<Rightarrow> oid \<Rightarrow> oid \<Rightarrow> error + task" where
  "getTask s uid tid' =
     (case Task_findOne s tid' uid of None \<Rightarrow> Inl notFound | Some t \<Rightarrow> Inr t)"

text \<open>
  POST /api/tasks. The handler compares the deadline with the clock at \<open>now\<close>;
  \<^verbatim>\<open>Task.create\<close> reads the clock again, at the instants of \<open>clk\<close>.
\<close>

definition createTaskAt ::
    "store \<Rightarrow> oid \<Rightarrow> time \<Rightarrow> save_clock \<Rightarrow> create_body \<Rightarrow> (error + task) \<times> store" where
  "createTaskAt s uid now clk b =
     (if \<not> validateCreate b then (Inl ValidationFailed, s)
      else if cb_deadline b \<le> now then (Inl deadlineError, s)
      else Task_create s uid clk b)"

text \<open>The request served within one tick of the clock.\<close>

definition createTask :: "store \<Rightarrow> oid \<Rightarrow> time \<Rightarrow> create_body \<Rightarrow> (error + task) \<times> store" where
  "createTask s uid now b =
     createTaskAt s uid now \<lparr>validatedAt = now, stampedAt = now, hookAt = now\<rparr> b"

text \<open>
  PUT /api/tasks/:id. The clock reads of one update are taken at one instant.
\<close>

definition updateTask ::
    "store \<Rightarrow> oid \<Rightarrow> time \<Rightarrow> oid \<Rightarrow> update_body \<Rightarrow> (error + task option) \<times> store" where
  "updateTask s uid now tid' b =
     (if \<not> validateUpdate b then (Inl ValidationFailed, s)
      else case Task_findOne s tid' uid of
             None \<Rightarrow> (Inl notFound, s)
           | Some _ \<Rightarrow>
               if (case ub_deadline b of None \<Rightarrow> False | Some d \<Rightarrow> d \<le> now)
                 then (Inl deadlineError, s)
               else Task_findByIdAndUpdate s now tid' b)"

text \<open>DELETE /api/tasks/:id\<close>

definition deleteTask :: "store \<Rightarrow> oid \<Rightarrow> oid \<Rightarrow> (error + unit) \<times> store" where
  "deleteTask s uid tid' =
     (case Task_findOne s tid' uid of
        None \<Rightarrow> (Inl notFound, s)
      | Some _ \<Rightarrow> (Inr (), Task_findByIdAndDelete s tid'))"

section \<open>JavaScript numbers\<close>

text \<open>
  A JavaScript number is an IEEE 754 binary64 value. A finite one is a rational, and the
  result of \<^verbatim>\<open>/\<close> and \<^verbatim>\<open>*\<close> is the exact result rounded to the nearest value
  with a 53-bit significand, ties to the even significand. The exponent range is not
  modelled: the quotients and products of document counts are far inside it, and so is
  every page number of fewer than 300 digits.
\<close>

function ilog2 :: "int \<Rightarrow> int" where
  "ilog2 n = (if n < 2 then 0 else 1 + ilog2 (n div 2))"
  by auto
termination
  by (relation "measure nat") auto

declare ilog2.simps [simp del]

definition pow2 :: "int \<Rightarrow> rat" where
  "pow2 k = (if 0 \<le> k then 2 ^ nat k else 1 / 2 ^ nat (- k))"

text \<open>The binary exponent of a positive rational: the \<open>e\<close> with \<open>2\<^sup>e \<le> a < 2\<^sup>e\<^sup>+\<^sup>1\<close>.\<close>

definition binExponent :: "rat \<Rightarrow> int" where
  "binExponent a =
     (let (n, d) = quotient_of a;
          k = ilog2 n - ilog2 d
      in if pow2 k \<le> a then k else k - 1)"

text \<open>The nearest integer, ties to even.\<close>

definition roundHalfEven :: "rat \<Rightarrow> int" where
  "roundHalfEven x =
     (let f = \<lfloor>x\<rfloor>; r = x - of_int f
      in if r < 1 / 2 then f
         else if 1 / 2 < r then f + 1
         else if even f then f else f + 1)"

definition roundToDouble :: "rat \<Rightarrow> rat" where
  "roundToDouble q =
     (if q = 0 then 0
      else let a = \<bar>q\<bar>; ulp = pow2 (binExponent a - 52)
           in sgn q * of_int (roundHalfEven (a / ulp)) * ulp)"

definition js_div :: "rat \<Rightarrow> rat \<Rightarrow> rat" where
  "js_div x y = roundToDouble (x / y)"

definition js_mul :: "rat \<Rightarrow> rat \<Rightarrow> rat" where
  "js_mul x y = roundToDouble (x * y)"

text \<open>\<^verbatim>\<open>Math.round\<close>: the nearest integer, a tie going up.\<close>

definition Math_round :: "rat \<Rightarrow> int" where
  "Math_round x = \<lfloor>x + 1 / 2\<rfloor>"

text \<open>
  The double nearest to an integer; it is an integer too. \<^verbatim>\<open>parseInt\<close> yields it for
  a string of digits, and the integer operations on page numbers round to it.
\<close>

definition js_int :: "int \<Rightarrow> int" where
  "js_int n = \<lfloor>roundToDouble (of_int n)\<rfloor>"

section \<open>Listing (GET /api/tasks)\<close>

text \<open>
  The query string. \<^verbatim>\<open>overdue\<close> stays a string: \<^verbatim>\<open>isBoolean()\<close> accepts
  "true", "false", "1" and "0", and the handler tests \<^verbatim>\<open>=== 'true'\<close>. Page and
  limit are the integers their digits denote, as \<^verbatim>\<open>isInt\<close> reads them.
\<close>

record list_query =
  q_status :: "task_status option"
  q_priority :: "task_priority option"
  q_overdue :: "string option"
  q_page :: "int option"
  q_limit :: "int option"

definition isBoolean :: "string \<Rightarrow> bool" where
  "isBoolean x = (x = ''true'' \<or> x = ''false'' \<or> x = ''1'' \<or> x = ''0'')"

definition validateList :: "list_query \<Rightarrow> bool" where
  "validateList q =
     ((case q_overdue q of None \<Rightarrow> True | Some x \<Rightarrow> isBoolean x) \<and>
      (case q_page q of None \<Rightarrow> True | Some p \<Rightarrow> 1 \<le> p) \<and>
      (case q_limit q of None \<Rightarrow> True | Some l \<Rightarrow> 1 \<le> l \<and> l \<le> 100))"

text \<open>
  \<^verbatim>\<open>parseInt(x, 10) || d\<close>: a missing parameter parses to NaN, and NaN and 0 are
  falsy. The digits parse to a double.
\<close>

definition parseIntOr :: "int option \<Rightarrow> int \<Rightarrow> int" where
  "parseIntOr x d = (case x of None \<Rightarrow> d | Some v \<Rightarrow> if js_int v = 0 then d else js_int v)"

record filters =
  f_status :: "task_status option"
  f_priority :: "task_priority option"
  f_overdue :: bool

definition buildFilters :: "list_query \<Rightarrow> filters" where
  "buildFilters q =
     \<lparr>f_status = q_status q, f_priority = q_priority q,
      f_overdue = (q_overdue q = Some ''true'')\<rparr>"

text \<open>
  A MongoDB filter document over the keys the handlers use. The key \<^verbatim>\<open>status\<close>
  holds either a value or \<^verbatim>\<open>{$ne: value}\<close>; assigning the key again replaces what
  it held.
\<close>

datatype status_cond = StatusIs task_status | StatusNe task_status

record task_query =
  tq_user :: oid
  tq_status :: "status_cond option"
  tq_priority :: "task_priority option"
  tq_deadline_lt :: "time option"

definition matches :: "task_query \<Rightarrow> task \<Rightarrow> bool" where
  "matches q t =
     (user t = tq_user q \<and>
      (case tq_status q of None \<Rightarrow> True
       | Some (StatusIs x) \<Rightarrow> status t = x
       | Some (StatusNe x) \<Rightarrow> status t \<noteq> x) \<and>
      (case tq_priority q of None \<Rightarrow> True | Some p \<Rightarrow> priority t = p) \<and>
      (case tq_deadline_lt q of None \<Rightarrow> True | Some d \<Rightarrow> deadline t < d))"

text \<open>The query object the GET handler builds, one assignment after the other.\<close>

definition buildQuery :: "oid \<Rightarrow> time \<Rightarrow> filters \<Rightarrow> task_query" where
  "buildQuery uid now f =
     (let q0 = \<lparr>tq_user = uid, tq_status = None, tq_priority = None, tq_deadline_lt = None\<rparr>;
          q1 = (case f_status f of None \<Rightarrow> q0 | Some x \<Rightarrow> q0\<lparr>tq_status := Some (StatusIs x)\<rparr>);
          q2 = (case f_priority f of None \<Rightarrow> q1 | Some p \<Rightarrow> q1\<lparr>tq_priority := Some p\<rparr>);
          q3 = (if f_overdue f
                  then q2\<lparr>tq_deadline_lt := Some now, tq_status := Some (StatusNe Completed)\<rparr>
                else q2)
      in q3)"

definition Task_find :: "store \<Rightarrow> task_query \<Rightarrow> task list" where
  "Task_find s q = filter (matches q) (docs s)"

definition Task_countDocuments :: "store \<Rightarrow> task_query \<Rightarrow> nat" where
  "Task_countDocuments s q = length (filter (matches q) (docs s))"

text \<open>
  \<^verbatim>\<open>.sort({deadline: 1, createdAt: -1})\<close>: ascending deadline, then descending
  creation time. MongoDB does not say in which order documents equal on both keys come:
  it is the order in which the server happens to visit the matches. The sort below is
  stable, and the handlers take that visiting order as a parameter \<open>scan\<close>, a
  reordering of the matches.
\<close>

definition sortTasks :: "task list \<Rightarrow> task list" where
  "sortTasks ts = sort_key (\<lambda>t. (deadline t, - createdAt t)) ts"

text \<open>
  \<^verbatim>\<open>taskSchema.statics.getUserTasks\<close> of the model builds the same query from the
  same filters and sorts the same way.
\<close>

definition getUserTasks :: "store \<Rightarrow> oid \<Rightarrow> time \<Rightarrow> filters \<Rightarrow> task list" where
  "getUserTasks s uid now f =
     (let q0 = \<lparr>tq_user = uid, tq_status = None, tq_priority = None, tq_deadline_lt = None\<rparr>;
          q1 = (case f_status f of None \<Rightarrow> q0 | Some x \<Rightarrow> q0\<lparr>tq_status := Some (StatusIs x)\<rparr>);
          q2 = (case f_priority f of None \<Rightarrow> q1 | Some p \<Rightarrow> q1\<lparr>tq_priority := Some p\<rparr>);
          q3 = (if f_overdue f
                  then q2\<lparr>tq_deadline_lt := Some now, tq_status := Some (StatusNe Completed)\<rparr>
                else q2)
      in sortTasks (Task_find s q3))"

record list_response =
  r_count :: nat
  r_total :: nat
  r_next :: "(int \<times> int) option"
  r_prev :: "(int \<times> int) option"
  r_tasks :: "task list"

text \<open>
  The cursor sorts before it skips and limits, whatever the order of the calls in the
  chain. Page, limit and start index are doubles: every operation rounds. The limits of
  the database on the size of \<^verbatim>\<open>skip\<close> are not modelled.
\<close>

definition listTasksWith ::
    "(task list \<Rightarrow> task list) \<Rightarrow> store \<Rightarrow> oid \<Rightarrow> time \<Rightarrow> list_query \<Rightarrow> error + list_response" where
  "listTasksWith scan s uid now q =
     (if \<not> validateList q then Inl ValidationFailed
      else
        let page = parseIntOr (q_page q) 1;
            limit = parseIntOr (q_limit q) 25;
            startIndex = js_int (js_int (page - 1) * limit);
            query = buildQuery uid now (buildFilters q);
            total = Task_countDocuments s query;
            found = take (nat limit) (drop (nat startIndex)
                      (sortTasks (scan (Task_find s query))))
        in Inr \<lparr>r_count = length found,
                 r_total = total,
                 r_next = (if js_int (startIndex + limit) < int total
                             then Some (js_int (page + 1), limit) else None),
                 r_prev = (if 0 < startIndex then Some (js_int (page - 1), limit) else None),
                 r_tasks = found\<rparr>)"

text \<open>The listing when the server visits the matches in collection order.\<close>

definition listTasks :: "store \<Rightarrow> oid \<Rightarrow> time \<Rightarrow> list_query \<Rightarrow> error + list_response" where
  "listTasks s uid now q = listTasksWith (\<lambda>ts. ts) s uid now q"

section \<open>Bulk status update (PATCH /api/tasks/bulk/status)\<close>

definition bulkNotFound :: error where
  "bulkNotFound = ErrorResponse ''Some tasks not found or do not belong to user'' 404"

text \<open>
  The update document of the handler; the timestamps option adds updatedAt.
\<close>

definition bulkSet :: "task_status \<Rightarrow> time \<Rightarrow> task \<Rightarrow> task" where
  "bulkSet st now t =
     t\<lparr>status := st,
       completedAt := (if st = Completed then Some now else None),
       updatedAt := now\<rparr>"

text \<open>
  \<^verbatim>\<open>Task.updateMany(filter, update)\<close>: every matching document is updated, and
  \<^verbatim>\<open>modifiedCount\<close> counts the matching documents the update changed.
\<close>

definition Task_updateMany :: "store \<Rightarrow> (task \<Rightarrow> bool) \<Rightarrow> (task \<Rightarrow> task) \<Rightarrow> nat \<times> store" where
  "Task_updateMany s P f =
     (length (filter (\<lambda>t. P t \<and> f t \<noteq> t) (docs s)),
      s\<lparr>docs := map (\<lambda>t. if P t then f t else t) (docs s)\<rparr>)"

definition bulkUpdateStatus ::
    "store \<Rightarrow> oid \<Rightarrow> time \<Rightarrow> oid list \<Rightarrow> task_status \<Rightarrow> (error + nat) \<times> store" where
  "bulkUpdateStatus s uid now taskIds st =
     (if taskIds = [] then (Inl ValidationFailed, s)
      else
        let tasks = filter (\<lambda>t. tid t \<in> set taskIds \<and> user t = uid) (docs s)
        in if length tasks \<noteq> length taskIds then (Inl bulkNotFound, s)
           else case Task_updateMany s (\<lambda>t. tid t \<in> set taskIds \<and> user t = uid) (bulkSet st now)
                of (modifiedCount, s') \<Rightarrow> (Inr modifiedCount, s'))"

section \<open>Statistics (GET /api/tasks/stats/overview)\<close>

text \<open>
  \<^verbatim>\<open>taskSchema.statics.getUserTaskStats\<close>: the aggregation groups the user's
  documents by status and counts each group (a status with no document has no group);
  the loop adds every count to the total and stores it under its status.
\<close>

record task_stats =
  ts_total :: nat
  ts_pending :: nat
  ts_inProgress :: nat
  ts_completed :: nat

definition aggregateByStatus :: "store \<Rightarrow> oid \<Rightarrow> (task_status \<times> nat) list" where
  "aggregateByStatus s uid =
     filter (\<lambda>(x, n). 0 < n)
       (map (\<lambda>x. (x, length (filter (\<lambda>t. user t = uid \<and> status t = x) (docs s))))
          [Pending, InProgress, Completed])"

fun addGroup :: "task_stats \<Rightarrow> task_status \<times> nat \<Rightarrow> task_stats" where
  "addGroup r (Pending, n) = r\<lparr>ts_total := ts_total r + n, ts_pending := n\<rparr>"
| "addGroup r (InProgress, n) = r\<lparr>ts_total := ts_total r + n, ts_inProgress := n\<rparr>"
| "addGroup r (Completed, n) = r\<lparr>ts_total := ts_total r + n, ts_completed := n\<rparr>"

definition getUserTaskStats :: "store \<Rightarrow> oid \<Rightarrow> task_stats" where
  "getUserTaskStats s uid =
     foldl addGroup \<lparr>ts_total = 0, ts_pending = 0, ts_inProgress = 0, ts_completed = 0\<rparr>
       (aggregateByStatus s uid)"

text \<open>
  \<^verbatim>\<open>d.setDate(d.getDate() + n)\<close> moves a date by \<open>n\<close> calendar days of the host's
  time zone. The handler takes that calendar as a parameter \<open>addDays\<close>; where the zone
  has no clock change, a day is 24 hours.
\<close>

definition dayMs :: int where
  "dayMs = 86400000"

definition plainDays :: "time \<Rightarrow> int \<Rightarrow> time" where
  "plainDays t n = t + n * dayMs"

definition completionRate :: "nat \<Rightarrow> nat \<Rightarrow> int" where
  "completionRate completedLast30Days tasksLast30Days =
     (if 0 < tasksLast30Days
        then Math_round
               (js_mul (js_div (of_nat completedLast30Days) (of_nat tasksLast30Days)) 100)
      else 0)"

record stats_overview =
  so_stats :: task_stats
  so_overdue :: nat
  so_dueThisWeek :: nat
  so_completionRate :: int

definition getStatsWith :: "(time \<Rightarrow> int \<Rightarrow> time) \<Rightarrow> store \<Rightarrow> oid \<Rightarrow> time \<Rightarrow> stats_overview" where
  "getStatsWith addDays s uid now =
     (let stats = getUserTaskStats s uid;
          overdueTasks = length (filter (\<lambda>t. user t = uid \<and> deadline t < now
                                              \<and> status t \<noteq> Completed) (docs s));
          oneWeekFromNow = addDays now 7;
          dueThisWeek = length (filter (\<lambda>t. user t = uid \<and> now \<le> deadline t
                                             \<and> deadline t \<le> oneWeekFromNow
                                             \<and> status t \<noteq> Completed) (docs s));
          thirtyDaysAgo = addDays now (- 30);
          tasksLast30Days = length (filter (\<lambda>t. user t = uid
                                                 \<and> thirtyDaysAgo \<le> createdAt t) (docs s));
          completedLast30Days =
            length (filter (\<lambda>t. user t = uid \<and> status t = Completed
                                \<and> (case completedAt t of None \<Rightarrow> False
                                    | Some c \<Rightarrow> thirtyDaysAgo \<le> c)) (docs s))
      in \<lparr>so_stats = stats, so_overdue = overdueTasks, so_dueThisWeek = dueThisWeek,
          so_completionRate = completionRate completedLast30Days tasksLast30Days\<rparr>)"

text \<open>The statistics on a host whose time zone has no clock change.\<close>

definition getStats :: "store \<Rightarrow> oid \<Rightarrow> time \<Rightarrow> stats_overview" where
  "getStats s uid now = getStatsWith plainDays s uid now"

section \<open>Stores and request sequences\<close>

text \<open>
  MongoDB keeps \<^verbatim>\<open>_id\<close> unique in a collection, and every identifier in use was
  handed out by the generator.
\<close>

definition wf :: "store \<Rightarrow> bool" where
  "wf s = (distinct (map tid (docs s)) \<and> list_all (\<lambda>t. tid t < nextId s) (docs s))"

text \<open>A request to one of the task routes, and the store it leaves behind.\<close>

datatype request =
    ReqCreate oid time create_body
  | ReqGet oid oid
  | ReqList oid time list_query
  | ReqUpdate oid time oid update_body
  | ReqDelete oid oid
  | ReqStats oid time
  | ReqBulk oid time "oid list" task_status

fun step :: "store \<Rightarrow> request \<Rightarrow> store" where
  "step s (ReqCreate uid now b) = snd (createTask s uid now b)"
| "step s (ReqGet uid i) = s"
| "step s (ReqList uid now q) = s"
| "step s (ReqUpdate uid now i b) = snd (updateTask s uid now i b)"
| "step s (ReqDelete uid i) = snd (deleteTask s uid i)"
| "step s (ReqStats uid now) = s"
| "step s (ReqBulk uid now ids st) = snd (bulkUpdateStatus s uid now ids st)"

text \<open>A create request that brings the identifier \<open>i\<close> along as its \<^verbatim>\<open>_id\<close>.\<close>

fun recreates :: "oid \<Rightarrow> request \<Rightarrow> bool" where
  "recreates i (ReqCreate uid now b) = (cb_id b = Some i)"
| "recreates i _ = False"

section \<open>Concrete documents and requests\<close>

definition aTask :: "oid \<Rightarrow> oid \<Rightarrow> task_status \<Rightarrow> time \<Rightarrow> time option \<Rightarrow> time \<Rightarrow> task" where
  "aTask i u st dl ca cr =
     \<lparr>tid = i, user = u, title = js ''Report'', description = js ''Quarterly figures'',
      status = st, deadline = dl, priority = Medium, tags = [],
      completedAt = ca, createdAt = cr, updatedAt = cr\<rparr>"

definition reportBody :: create_body where
  "reportBody = \<lparr>cb_title = js ''Report'', cb_description = js ''Quarterly figures'',
                  cb_deadline = 5000, cb_priority = None, cb_status = None, cb_tags = None,
                  cb_id = None, cb_completedAt = None\<rparr>"

definition statusOnly :: "task_status \<Rightarrow> update_body" where
  "statusOnly st = \<lparr>ub_title = None, ub_description = None, ub_deadline = None,
                     ub_priority = None, ub_status = Some st, ub_tags = None,
                     ub_completedAt = None, ub_user = None\<rparr>"

definition pendingOverdue :: list_query where
  "pendingOverdue = \<lparr>q_status = Some Pending, q_priority = None, q_overdue = Some ''true'',
                      q_page = None, q_limit = None\<rparr>"

text \<open>
  Forty tasks of user 7, all created at time 800; the first 23 are Completed, with
  completedAt 900.
\<close>

definition rateStore :: store where
  "rateStore =
     \<lparr>docs = map (\<lambda>i. aTask i 7 Completed 5000 (Some 900) 800) [0..<23] @
             map (\<lambda>i. aTask i 7 Pending 5000 None 800) [23..<40],
      nextId = 40\<rparr>"

text \<open>Three tasks: two of user 7, one of user 8.\<close>

definition bulkStore :: store where
  "bulkStore = \<lparr>docs = [aTask 0 7 Pending 5000 None 1000,
                          aTask 1 7 InProgress 5000 None 1000,
                          aTask 2 8 Pending 5000 None 1000], nextId = 3\<rparr>"

text \<open>A body with a valid title and description whose only tag has 51 characters.\<close>

definition longTagBody :: create_body where
  "longTagBody =
     reportBody\<lparr>cb_tags := Some [js ''xxxxxxxxxxxxxxxxxxxxxxxxxxxxxxxxxxxxxxxxxxxxxxxxxxx'']\<rparr>"

text \<open>The same body with a \<^verbatim>\<open>completedAt\<close> key, and with an \<^verbatim>\<open>_id\<close> key.\<close>

definition completedAtBody :: create_body where
  "completedAtBody = reportBody\<lparr>cb_completedAt := Some (Some 500)\<rparr>"

definition ownIdBody :: "oid \<Rightarrow> create_body" where
  "ownIdBody i = reportBody\<lparr>cb_id := Some i\<rparr>"

text \<open>
  A title of 101 characters outside the Basic Multilingual Plane (U+1F600, the
  surrogate pair D83D DE00): 202 code units.
\<close>

definition astral :: "nat \<Rightarrow> jsstring" where
  "astral n = concat (replicate n [0xD83D, 0xDE00])"

definition astralBody :: create_body where
  "astralBody = reportBody\<lparr>cb_title := astral 101\<rparr>"

text \<open>A deadline one millisecond after the handler's check at time 1000.\<close>

definition tightBody :: create_body where
  "tightBody = reportBody\<lparr>cb_deadline := 1001\<rparr>"

text \<open>Two tasks of user 7 with deadline 500: one Completed, one Pending.\<close>

definition overdueStore :: store where
  "overdueStore = \<lparr>docs = [aTask 0 7 Completed 500 (Some 400) 100,
                             aTask 1 7 Pending 500 None 100], nextId = 2\<rparr>"

definition overdueOnly :: list_query where
  "overdueOnly = \<lparr>q_status = None, q_priority = None, q_overdue = Some ''true'',
                   q_page = None, q_limit = None\<rparr>"

definition overdueFilters :: filters where
  "overdueFilters = \<lparr>f_status = None, f_priority = None, f_overdue = True\<rparr>"



section \<open>Evaluating the handlers\<close>

lemma trim_Report: "trim (js ''Report'') = js ''Report''"
  by (simp add: trim_def isWhiteSpace_def js_def)

lemma trim_Quarterly: "trim (js ''Quarterly figures'') = js ''Quarterly figures''"
  by (simp add: trim_def isWhiteSpace_def js_def)

lemma valid_reportBody: "validateCreate reportBody"
  by (simp add: validateCreate_def validTags_def reportBody_def isLength_def
      presentationSequences_def trim_def isWhiteSpace_def js_def)

lemma create_report:
  "createTask emptyStore 7 1000 reportBody =
     (Inr (aTask 0 7 Pending 5000 None 1000),
      \<lparr>docs = [aTask 0 7 Pending 5000 None 1000], nextId = 1\<rparr>)"
  using valid_reportBody
  by (simp add: createTask_def createTaskAt_def Task_create_def schemaErrors_def preSave_def
      emptyStore_def aTask_def Let_def)
     (simp add: reportBody_def trim_def isWhiteSpace_def js_def)

text \<open>
  C1. The invariant "completedAt is set exactly when the status is Completed" does not
  survive PUT /api/tasks/:id. A task is created with the defaults and then updated with
  the body \<^verbatim>\<open>{status: 'Completed'}\<close>; GET /api/tasks/:id then shows it with status
  Completed and completedAt null. The update goes through
  \<^verbatim>\<open>findByIdAndUpdate\<close>, which writes the body's fields and does not run the
  pre-save hook.
\<close>

theorem put_breaks_completedAt_invariant:
  "getTask (snd (updateTask (snd (createTask emptyStore 7 1000 reportBody)) 7 2000 0
                   (statusOnly Completed))) 7 0
   = Inr \<lparr>tid = 0, user = 7, title = js ''Report'', description = js ''Quarterly figures'',
           status = Completed, deadline = 5000, priority = Medium, tags = [],
           completedAt = None, createdAt = 1000, updatedAt = 2000\<rparr>"
  by (simp add: create_report updateTask_def validateUpdate_def validTags_def statusOnly_def
      Task_findOne_def Task_findByIdAndUpdate_def updateErrors_def applyUpdate_def
      getTask_def aTask_def Let_def)

text \<open>
  C2. PUT /api/tasks/:id writes the status and leaves completedAt as it was. Setting a
  Pending task with no completedAt to Completed at time 2000 answers with completedAt
  null, not 2000; setting a Completed task with completedAt 1500 to Pending answers
  with completedAt still 1500, not null.
\<close>

theorem put_status_leaves_completedAt:
  "fst (updateTask \<lparr>docs = [aTask 0 7 Pending 5000 None 1000], nextId = 1\<rparr> 7 2000 0
          (statusOnly Completed))
     = Inr (Some \<lparr>tid = 0, user = 7, title = js ''Report'',
                  description = js ''Quarterly figures'',
                  status = Completed, deadline = 5000, priority = Medium, tags = [],
                  completedAt = None, createdAt = 1000, updatedAt = 2000\<rparr>) \<and>
   fst (updateTask \<lparr>docs = [aTask 0 7 Completed 5000 (Some 1500) 1000], nextId = 1\<rparr> 7 2000 0
          (statusOnly Pending))
     = Inr (Some \<lparr>tid = 0, user = 7, title = js ''Report'',
                  description = js ''Quarterly figures'',
                  status = Pending, deadline = 5000, priority = Medium, tags = [],
                  completedAt = Some 1500, createdAt = 1000, updatedAt = 2000\<rparr>)"
  by (simp add: updateTask_def validateUpdate_def validTags_def statusOnly_def
      Task_findOne_def Task_findByIdAndUpdate_def updateErrors_def applyUpdate_def
      aTask_def Let_def)

lemma js_int_0: "js_int 0 = 0"
  by (simp add: js_int_def roundToDouble_def)

lemma js_int_25: "js_int 25 = 25"
  by code_simp

text \<open>
  C3. With \<^verbatim>\<open>status=Pending&overdue=true\<close> the handler first stores the requested
  status under the query's \<^verbatim>\<open>status\<close> key and then stores
  \<^verbatim>\<open>{$ne: 'Completed'}\<close> under the same key. The requested status is lost: at time
  1000 an In Progress task with deadline 500 is returned to a request for Pending tasks.
\<close>

theorem overdue_drops_status_filter:
  "listTasks \<lparr>docs = [aTask 0 7 InProgress 500 None 100], nextId = 1\<rparr> 7 1000 pendingOverdue
     = Inr \<lparr>r_count = 1, r_total = 1, r_next = None, r_prev = None,
             r_tasks = [\<lparr>tid = 0, user = 7, title = js ''Report'',
                          description = js ''Quarterly figures'', status = InProgress,
                          deadline = 500, priority = Medium, tags = [],
                          completedAt = None, createdAt = 100, updatedAt = 100\<rparr>]\<rparr>"
  by (simp add: listTasks_def listTasksWith_def validateList_def isBoolean_def
      pendingOverdue_def parseIntOr_def js_int_0 js_int_25
      buildQuery_def buildFilters_def Task_countDocuments_def Task_find_def matches_def
      sortTasks_def aTask_def Let_def)

section \<open>The completion rate\<close>

lemma rate_counts:
  "length (filter (\<lambda>t. user t = 7 \<and> 1000 - 30 * dayMs \<le> createdAt t) (docs rateStore)) = 40"
  "length (filter (\<lambda>t. user t = 7 \<and> status t = Completed
                        \<and> (case completedAt t of None \<Rightarrow> False
                            | Some c \<Rightarrow> 1000 - 30 * dayMs \<le> c)) (docs rateStore)) = 23"
  by (simp_all add: rateStore_def aTask_def dayMs_def comp_def)

text \<open>
  The number model on a familiar value: the double written \<^verbatim>\<open>0.1\<close> is
  3602879701896397 / 36028797018963968.
\<close>

lemma double_one_tenth: "js_div 1 10 = 3602879701896397 / 36028797018963968"
  by code_simp

lemma div_23_40: "js_div 23 40 = 2589569785738035 / 4503599627370496"
  by code_simp

lemma mul_23_40:
  "js_mul (2589569785738035 / 4503599627370496) 100 = 8092405580431359 / 140737488355328"
  by code_simp

lemma round_23_40: "Math_round (8092405580431359 / 140737488355328) = 57"
  by code_simp

lemma rate_23_40: "completionRate 23 40 = 57"
  by (simp add: completionRate_def div_23_40 mul_23_40 round_23_40)

lemma div_4_10: "js_div 4 10 = 3602879701896397 / 9007199254740992"
  by code_simp

lemma mul_4_10: "js_mul (3602879701896397 / 9007199254740992) 100 = 40"
  by code_simp

lemma round_4_10: "Math_round 40 = 40"
  by code_simp

lemma rate_4_10: "completionRate 4 10 = 40"
  by (simp add: completionRate_def div_4_10 mul_4_10 round_4_10)

lemma rate_no_tasks: "completionRate c 0 = 0"
  by (simp add: completionRate_def)

text \<open>
  C6. The handler computes \<^verbatim>\<open>Math.round((completed / created) * 100)\<close> in double
  precision. With 40 tasks created in the last 30 days and 23 of them Completed in that
  window, 23/40 rounds to a double just below 0.575, the product with 100 is the double
  57.49999999999999 (8092405580431359 / 140737488355328), and the rate is 57. The exact
  value of 100 * 23 / 40 is 57.5, which rounds to 58. The zero-denominator policy
  (\<open>rate_no_tasks\<close>) and the example of 4 out of 10 (\<open>rate_4_10\<close>) hold.
\<close>

theorem completionRate_rounds_down:
  "so_completionRate (getStats rateStore 7 1000) = 57 \<and>
   Math_round (100 * 23 / 40) = 58"
  by (simp add: getStats_def getStatsWith_def plainDays_def Let_def rate_counts rate_23_40
      Math_round_def)

section \<open>Identifiers stay unique\<close>

lemma tid_applyUpdate: "tid (applyUpdate b now t) = tid t"
  by (simp add: applyUpdate_def)

lemma tid_bulkSet: "tid (bulkSet st now t) = tid t"
  by (simp add: bulkSet_def)

lemma map_tid_updateFirst:
  "(\<And>t. tid (f t) = tid t) \<Longrightarrow> map tid (updateFirst P f ds) = map tid ds"
  by (induction ds) auto

lemma set_removeFirst: "set (removeFirst P ds) \<subseteq> set ds"
  by (induction ds) auto

lemma distinct_removeFirst:
  "distinct (map tid ds) \<Longrightarrow> distinct (map tid (removeFirst P ds))"
proof (induction ds)
  case Nil
  then show ?case by simp
next
  case (Cons d ds)
  then show ?case using set_removeFirst [of P ds] by auto
qed

lemma removeFirst_gone:
  "distinct (map tid ds) \<Longrightarrow> i \<notin> tid ` set (removeFirst (\<lambda>t. tid t = i) ds)"
  by (induction ds) auto

lemma find_None_tid:
  "i \<notin> tid ` set ds \<Longrightarrow> find (\<lambda>t. tid t = i \<and> user t = uid) ds = None"
  by (induction ds) auto

lemma find_Some_mem: "find P ds = Some t \<Longrightarrow> t \<in> set ds \<and> P t"
  by (induction ds) (auto split: if_splits)

lemma inj_tid:
  "distinct (map tid ds) \<Longrightarrow> t \<in> set ds \<Longrightarrow> t' \<in> set ds \<Longrightarrow> tid t = tid t' \<Longrightarrow> t = t'"
  by (auto simp: distinct_map dest: inj_onD)

lemma wf_ids:
  "wf s \<longleftrightarrow> distinct (map tid (docs s)) \<and> (\<forall>k \<in> set (map tid (docs s)). k < nextId s)"
  by (auto simp: wf_def list_all_iff)

lemma wf_same_ids:
  "wf s \<Longrightarrow> map tid (docs s') = map tid (docs s) \<Longrightarrow> nextId s' = nextId s \<Longrightarrow> wf s'"
  by (simp add: wf_ids)

lemma wf_empty: "wf emptyStore"
  by (simp add: wf_def emptyStore_def)

lemma tid_preSave: "tid (preSave m now t) = tid t"
  by (simp add: preSave_def)

lemma wf_Task_create: "wf s \<Longrightarrow> wf (snd (Task_create s uid clk b))"
  by (cases "cb_id b")
     (auto simp: wf_ids Task_create_def Let_def tid_preSave less_max_iff_disj)

lemma wf_create: "wf s \<Longrightarrow> wf (snd (createTask s uid now b))"
  by (simp add: createTask_def createTaskAt_def wf_Task_create)

lemma wf_update: "wf s \<Longrightarrow> wf (snd (updateTask s uid now i b))"
proof -
  assume w: "wf s"
  have m: "map tid (updateFirst (\<lambda>t. tid t = i) (applyUpdate b now) (docs s)) = map tid (docs s)"
    by (rule map_tid_updateFirst) (rule tid_applyUpdate)
  have "wf (s\<lparr>docs := updateFirst (\<lambda>t. tid t = i) (applyUpdate b now) (docs s)\<rparr>)"
    by (rule wf_same_ids [OF w]) (simp_all add: m)
  with w show ?thesis
    by (simp add: updateTask_def Task_findByIdAndUpdate_def Let_def split: option.splits)
qed

lemma wf_delete: "wf s \<Longrightarrow> wf (snd (deleteTask s uid i))"
  using set_removeFirst [of "\<lambda>t. tid t = i" "docs s"]
  by (auto simp: wf_def deleteTask_def Task_findByIdAndDelete_def list_all_iff
      distinct_removeFirst split: option.splits)

lemma wf_bulk: "wf s \<Longrightarrow> wf (snd (bulkUpdateStatus s uid now ids st))"
proof -
  assume w: "wf s"
  have "wf (s\<lparr>docs := map (\<lambda>t. if P t then bulkSet st now t else t) (docs s)\<rparr>)" for P
    by (rule wf_same_ids [OF w]) (simp_all add: tid_bulkSet)
  with w show ?thesis
    by (simp add: bulkUpdateStatus_def Task_updateMany_def Let_def)
qed

lemma wf_step: "wf s \<Longrightarrow> wf (step s r)"
  by (cases r) (simp_all add: wf_create wf_update wf_delete wf_bulk)

text \<open>Every store the routes can reach from the empty collection has unique identifiers.\<close>

lemma wf_reachable: "wf (foldl step emptyStore reqs)"
proof -
  have "wf s \<Longrightarrow> wf (foldl step s reqs)" for s
    by (induction reqs arbitrary: s) (simp_all add: wf_step)
  then show ?thesis using wf_empty by blast
qed

lemma wf_bulkStore: "wf bulkStore"
  by (simp add: wf_def bulkStore_def aTask_def)

lemma get_bulkStore:
  "getTask bulkStore 7 0 = Inr (aTask 0 7 Pending 5000 None 1000)"
  "getTask bulkStore 7 1 = Inr (aTask 1 7 InProgress 5000 None 1000)"
  "getTask bulkStore 7 2 = Inl notFound"
  by (simp_all add: getTask_def Task_findOne_def bulkStore_def aTask_def)

section \<open>Deleting a task\<close>

lemma ids_updateFirst:
  "tid ` set (updateFirst P (applyUpdate b now) ds) = tid ` set ds"
proof -
  have "map tid (updateFirst P (applyUpdate b now) ds) = map tid ds"
    by (rule map_tid_updateFirst) (rule tid_applyUpdate)
  then have "set (map tid (updateFirst P (applyUpdate b now) ds)) = set (map tid ds)"
    by simp
  then show ?thesis by simp
qed

lemma ids_bulk:
  "tid ` set (map (\<lambda>t. if P t then bulkSet st now t else t) ds) = tid ` set ds"
  by (induction ds) (auto simp: tid_bulkSet)

lemma gone_create:
  assumes "cb_id b \<noteq> Some i" and "i < nextId s" and "i \<notin> tid ` set (docs s)"
  shows "i < nextId (snd (createTask s uid now b)) \<and>
         i \<notin> tid ` set (docs (snd (createTask s uid now b)))"
  using assms
  by (cases "cb_id b")
     (auto simp: createTask_def createTaskAt_def Task_create_def Let_def tid_preSave
        less_max_iff_disj)

lemma ids_update:
  "tid ` set (docs (snd (updateTask s uid now i b))) = tid ` set (docs s) \<and>
   nextId (snd (updateTask s uid now i b)) = nextId s"
  by (simp add: updateTask_def Task_findByIdAndUpdate_def Let_def ids_updateFirst
      split: option.splits)

lemma ids_delete:
  "tid ` set (docs (snd (deleteTask s uid i))) \<subseteq> tid ` set (docs s) \<and>
   nextId (snd (deleteTask s uid i)) = nextId s"
  using set_removeFirst [of "\<lambda>t. tid t = i" "docs s"]
  by (auto simp: deleteTask_def Task_findByIdAndDelete_def split: option.splits)

lemma ids_bulkUpdate:
  "tid ` set (docs (snd (bulkUpdateStatus s uid now ids st))) = tid ` set (docs s) \<and>
   nextId (snd (bulkUpdateStatus s uid now ids st)) = nextId s"
  by (simp add: bulkUpdateStatus_def Task_updateMany_def Let_def ids_bulk del: set_map)

text \<open>
  An identifier that is out of use and behind the generator stays so, unless a create
  request brings it along.
\<close>

lemma gone_step:
  assumes "\<not> recreates i r" and "i < nextId s" and "i \<notin> tid ` set (docs s)"
  shows "i < nextId (step s r) \<and> i \<notin> tid ` set (docs (step s r))"
proof (cases r)
  case (ReqCreate uid now b)
  then show ?thesis using gone_create [of b i s uid now] assms by simp
next
  case (ReqUpdate uid now j b)
  then show ?thesis using ids_update [of s uid now j b] assms by auto
next
  case (ReqDelete uid j)
  then show ?thesis using ids_delete [of s uid j] assms by auto
next
  case (ReqBulk uid now ids st)
  then show ?thesis using ids_bulkUpdate [of s uid now ids st] assms by auto
qed (use assms in auto)

lemma gone_steps:
  "list_all (\<lambda>r. \<not> recreates i r) reqs \<Longrightarrow> i < nextId s \<Longrightarrow> i \<notin> tid ` set (docs s) \<Longrightarrow>
     i < nextId (foldl step s reqs) \<and> i \<notin> tid ` set (docs (foldl step s reqs))"
proof (induction reqs arbitrary: s)
  case Nil
  then show ?case by simp
next
  case (Cons r reqs)
  have "i < nextId (step s r)" "i \<notin> tid ` set (docs (step s r))"
    using gone_step [of i r s] Cons.prems by auto
  then show ?case using Cons.IH [of "step s r"] Cons.prems(1) by simp
qed

lemma get_gone: "i \<notin> tid ` set (docs s) \<Longrightarrow> getTask s uid i = Inl notFound"
  by (simp add: getTask_def Task_findOne_def find_None_tid)

lemma set_removeFirst_tid:
  "distinct (map tid ds) \<Longrightarrow> t \<in> set ds \<Longrightarrow>
     set (removeFirst (\<lambda>x. tid x = tid t) ds) = set ds - {t}"
proof (induction ds)
  case Nil
  then show ?case by simp
next
  case (Cons d ds)
  show ?case
  proof (cases "tid d = tid t")
    case True
    then have "d = t" using Cons.prems by (auto intro: inj_tid [of "d # ds"])
    moreover have "t \<notin> set ds" using Cons.prems \<open>d = t\<close> by auto
    ultimately show ?thesis by simp
  next
    case False
    then have "t \<in> set ds" using Cons.prems by auto
    then show ?thesis using Cons False by auto
  qed
qed

lemma create_ownId:
  "createTask \<lparr>docs = [aTask 1 7 InProgress 5000 None 1000, aTask 2 8 Pending 5000 None 1000],
               nextId = 3\<rparr> 7 2000 (ownIdBody 0)
     = (Inr (aTask 0 7 Pending 5000 None 2000),
        \<lparr>docs = [aTask 1 7 InProgress 5000 None 1000, aTask 2 8 Pending 5000 None 1000,
                 aTask 0 7 Pending 5000 None 2000], nextId = 3\<rparr>)"
proof -
  have "validateCreate (ownIdBody 0)"
    using valid_reportBody by (simp add: validateCreate_def ownIdBody_def)
  then show ?thesis
    by (simp add: createTask_def createTaskAt_def Task_create_def schemaErrors_def preSave_def
        aTask_def Let_def)
       (simp add: ownIdBody_def reportBody_def trim_def isWhiteSpace_def js_def)
qed

text \<open>
  C9 as stated fails. User 7 deletes task 0 of \<open>bulkStore\<close> and then posts a body
  that carries \<^verbatim>\<open>_id\<close> 0: \<^verbatim>\<open>Task.create(req.body)\<close> inserts a document under
  the deleted identifier, and GET /api/tasks/0 answers with it.
\<close>

theorem recreate_after_delete_counterexample:
  "getTask bulkStore 7 0 = Inr (aTask 0 7 Pending 5000 None 1000) \<and>
   fst (deleteTask bulkStore 7 0) = Inr () \<and>
   getTask (foldl step (snd (deleteTask bulkStore 7 0)) [ReqCreate 7 2000 (ownIdBody 0)]) 7 0
     = Inr (aTask 0 7 Pending 5000 None 2000)"
proof -
  have d: "deleteTask bulkStore 7 0
             = (Inr (), \<lparr>docs = [aTask 1 7 InProgress 5000 None 1000,
                                  aTask 2 8 Pending 5000 None 1000], nextId = 3\<rparr>)"
    by (simp add: deleteTask_def Task_findOne_def Task_findByIdAndDelete_def bulkStore_def
        aTask_def)
  have r: "foldl step (snd (deleteTask bulkStore 7 0)) [ReqCreate 7 2000 (ownIdBody 0)]
             = \<lparr>docs = [aTask 1 7 InProgress 5000 None 1000, aTask 2 8 Pending 5000 None 1000,
                        aTask 0 7 Pending 5000 None 2000], nextId = 3\<rparr>"
    by (simp only: d foldl.simps step.simps snd_conv create_ownId)
  have g: "getTask \<lparr>docs = [aTask 1 7 InProgress 5000 None 1000, aTask 2 8 Pending 5000 None 1000,
                        aTask 0 7 Pending 5000 None 2000], nextId = 3\<rparr> 7 0
             = Inr (aTask 0 7 Pending 5000 None 2000)"
    by (simp add: getTask_def Task_findOne_def aTask_def)
  have a: "fst (deleteTask bulkStore 7 0) = Inr ()"
    by (simp only: d fst_conv)
  have b: "getTask (foldl step (snd (deleteTask bulkStore 7 0)) [ReqCreate 7 2000 (ownIdBody 0)]) 7 0
             = Inr (aTask 0 7 Pending 5000 None 2000)"
    by (simp only: r g)
  from get_bulkStore(1) a b show ?thesis by (intro conjI)
qed

text \<open>
  C9, amended. Let \<open>t\<close> be the task user \<open>uid\<close> gets under identifier \<open>i\<close>. Then
  DELETE /api/tasks/i by that user succeeds and removes exactly \<open>t\<close> from the
  collection, and GET /api/tasks/i by that user answers "Task not found" (404) right
  away and after any further sequence of requests to the task routes in which no create
  request carries \<open>i\<close> as its \<^verbatim>\<open>_id\<close>; no document carries the identifier \<open>i\<close>
  then.
\<close>

theorem delete_then_get_notFound:
  assumes "wf s" and "getTask s uid i = Inr t"
  shows "\<exists>s'. deleteTask s uid i = (Inr (), s') \<and>
              set (docs s') = set (docs s) - {t} \<and>
              getTask s' uid i = Inl (ErrorResponse ''Task not found'' 404) \<and>
              (\<forall>reqs. list_all (\<lambda>r. \<not> recreates i r) reqs \<longrightarrow>
                 getTask (foldl step s' reqs) uid i = Inl (ErrorResponse ''Task not found'' 404) \<and>
                 i \<notin> tid ` set (docs (foldl step s' reqs)))"
proof -
  have f: "Task_findOne s i uid = Some t"
    using assms(2) by (simp add: getTask_def split: option.splits)
  then have t: "t \<in> set (docs s)" "tid t = i"
    using find_Some_mem [of "\<lambda>t. tid t = i \<and> user t = uid" "docs s" t]
    by (simp_all add: Task_findOne_def)
  have d: "distinct (map tid (docs s))" and b: "i < nextId s"
    using assms(1) t by (auto simp: wf_ids)
  let ?s' = "Task_findByIdAndDelete s i"
  have del: "deleteTask s uid i = (Inr (), ?s')"
    using f by (simp add: deleteTask_def)
  have rest: "set (docs ?s') = set (docs s) - {t}"
    using set_removeFirst_tid [OF d t(1)] t(2) by (simp add: Task_findByIdAndDelete_def)
  have gone: "i \<notin> tid ` set (docs ?s')" and lt: "i < nextId ?s'"
    using removeFirst_gone [OF d, of i] b by (simp_all add: Task_findByIdAndDelete_def)
  have now: "getTask ?s' uid i = Inl (ErrorResponse ''Task not found'' 404)"
    using get_gone [OF gone] by (simp add: notFound_def)
  have later: "getTask (foldl step ?s' reqs) uid i = Inl (ErrorResponse ''Task not found'' 404) \<and>
        i \<notin> tid ` set (docs (foldl step ?s' reqs))"
    if "list_all (\<lambda>r. \<not> recreates i r) reqs" for reqs
    using gone_steps [OF that lt gone] get_gone [of i "foldl step ?s' reqs" uid]
    by (simp add: notFound_def)
  from del rest now later show ?thesis by blast
qed

text \<open>
  C9 amended, at a concrete input: user 7 deletes task 0 of \<open>bulkStore\<close>; the task is
  not found right after, nor after a create without an identifier, a create that
  brings identifier 5, and a bulk update.
\<close>

theorem delete_then_get_notFound_witness:
  "wf bulkStore \<and> getTask bulkStore 7 0 = Inr (aTask 0 7 Pending 5000 None 1000) \<and>
   list_all (\<lambda>r. \<not> recreates 0 r)
     [ReqCreate 7 2000 reportBody, ReqCreate 7 2050 (ownIdBody 5), ReqBulk 7 2100 [1] Completed] \<and>
   (\<exists>s'. deleteTask bulkStore 7 0 = (Inr (), s') \<and>
         getTask s' 7 0 = Inl (ErrorResponse ''Task not found'' 404) \<and>
         getTask (foldl step s' [ReqCreate 7 2000 reportBody, ReqCreate 7 2050 (ownIdBody 5),
                                 ReqBulk 7 2100 [1] Completed]) 7 0
           = Inl (ErrorResponse ''Task not found'' 404))"
proof -
  have l: "list_all (\<lambda>r. \<not> recreates 0 r)
     [ReqCreate 7 2000 reportBody, ReqCreate 7 2050 (ownIdBody 5), ReqBulk 7 2100 [1] Completed]"
    by (simp add: reportBody_def ownIdBody_def)
  obtain s' where s': "deleteTask bulkStore 7 0 = (Inr (), s')"
      "getTask s' 7 0 = Inl (ErrorResponse ''Task not found'' 404)"
      "\<forall>reqs. list_all (\<lambda>r. \<not> recreates 0 r) reqs \<longrightarrow>
         getTask (foldl step s' reqs) 7 0 = Inl (ErrorResponse ''Task not found'' 404) \<and>
         0 \<notin> tid ` set (docs (foldl step s' reqs))"
    using delete_then_get_notFound [OF wf_bulkStore get_bulkStore(1)] by blast
  have "getTask (foldl step s' [ReqCreate 7 2000 reportBody, ReqCreate 7 2050 (ownIdBody 5),
                                 ReqBulk 7 2100 [1] Completed]) 7 0
           = Inl (ErrorResponse ''Task not found'' 404)"
    using s'(3) l by blast
  with s'(1,2) l wf_bulkStore get_bulkStore(1) show ?thesis by blast
qed

section \<open>The ownership check of the bulk update\<close>

lemma matched_card:
  assumes "distinct (map tid ds)"
  shows "length (filter (\<lambda>t. tid t \<in> A \<and> Q t) ds)
           = card (tid ` {t \<in> set ds. tid t \<in> A \<and> Q t})"
proof -
  have "distinct (map tid (filter (\<lambda>t. tid t \<in> A \<and> Q t) ds))"
    using assms by (rule distinct_map_filter)
  then have "card (set (map tid (filter (\<lambda>t. tid t \<in> A \<and> Q t) ds)))
               = length (map tid (filter (\<lambda>t. tid t \<in> A \<and> Q t) ds))"
    by (rule distinct_card)
  then show ?thesis by simp
qed

lemma findOne_None_iff:
  "Task_findOne s i uid = None \<longleftrightarrow> (\<forall>t \<in> set (docs s). tid t = i \<longrightarrow> user t \<noteq> uid)"
  by (auto simp: Task_findOne_def find_None_iff)

lemma bulk_missing:
  assumes "wf s" and "i \<in> set ids" and "getTask s uid i = Inl notFound"
  shows "bulkUpdateStatus s uid now ids st = (Inl bulkNotFound, s)"
proof -
  let ?M = "tid ` {t \<in> set (docs s). tid t \<in> set ids \<and> user t = uid}"
  have d: "distinct (map tid (docs s))" using assms(1) by (simp add: wf_def)
  have n: "Task_findOne s i uid = None"
    using assms(3) by (simp add: getTask_def split: option.splits)
  have "i \<notin> ?M" using n by (auto simp: findOne_None_iff)
  then have "?M \<subseteq> set ids - {i}" by auto
  then have "card ?M \<le> card (set ids - {i})" by (simp add: card_mono)
  also have "\<dots> < card (set ids)" using assms(2) by (intro card_Diff1_less) simp_all
  also have "\<dots> \<le> length ids" by (rule card_length)
  finally have "length (filter (\<lambda>t. tid t \<in> set ids \<and> user t = uid) (docs s)) \<noteq> length ids"
    using matched_card [OF d, of "set ids" "\<lambda>t. user t = uid"] by simp
  moreover have "ids \<noteq> []" using assms(2) by auto
  ultimately show ?thesis by (simp add: bulkUpdateStatus_def Let_def)
qed

lemma bulk_all_owned:
  assumes "wf s" and "distinct ids" and "\<forall>i \<in> set ids. getTask s uid i \<noteq> Inl notFound"
  shows "length (filter (\<lambda>t. tid t \<in> set ids \<and> user t = uid) (docs s)) = length ids"
proof -
  let ?M = "tid ` {t \<in> set (docs s). tid t \<in> set ids \<and> user t = uid}"
  have d: "distinct (map tid (docs s))" using assms(1) by (simp add: wf_def)
  have "set ids \<subseteq> ?M"
  proof
    fix i assume i: "i \<in> set ids"
    with assms(3) have "Task_findOne s i uid \<noteq> None"
      by (auto simp: getTask_def split: option.splits)
    then obtain t where "t \<in> set (docs s)" "tid t = i" "user t = uid"
      by (auto simp: findOne_None_iff)
    with i show "i \<in> ?M" by auto
  qed
  moreover have "?M \<subseteq> set ids" by auto
  ultimately have "?M = set ids" by blast
  then show ?thesis
    using matched_card [OF d, of "set ids" "\<lambda>t. user t = uid"] distinct_card [OF assms(2)]
    by simp
qed

lemma owned_user:
  assumes "distinct (map tid (docs s))" and "getTask s uid i \<noteq> Inl notFound"
    and "t \<in> set (docs s)" and "tid t = i"
  shows "user t = uid"
proof -
  from assms(2) have "Task_findOne s i uid \<noteq> None"
    by (auto simp: getTask_def split: option.splits)
  then obtain t' where t': "t' \<in> set (docs s)" "tid t' = i" "user t' = uid"
    by (auto simp: findOne_None_iff)
  then have "t = t'" using assms by (auto intro: inj_tid)
  with t' show ?thesis by simp
qed

lemma updateMany_count:
  "fst (Task_updateMany s P f)
     = card {k. k < length (docs s) \<and> docs (snd (Task_updateMany s P f)) ! k \<noteq> docs s ! k}"
proof -
  have "{k. k < length (docs s) \<and> (P (docs s ! k) \<and> f (docs s ! k) \<noteq> docs s ! k)}
          = {k. k < length (docs s) \<and> docs (snd (Task_updateMany s P f)) ! k \<noteq> docs s ! k}"
    by (auto simp: Task_updateMany_def split: if_splits)
  then show ?thesis
    by (simp add: Task_updateMany_def length_filter_conv_card)
qed

text \<open>
  C10. When the list of identifiers holds one of them twice, the bulk update answers
  "Some tasks not found or do not belong to user" (404) and leaves the store as it was,
  whoever owns the tasks: the matching documents are at most as many as the distinct
  identifiers, fewer than the length of the list.
\<close>

theorem bulk_rejects_duplicates:
  assumes "wf s" and "\<not> distinct taskIds"
  shows "bulkUpdateStatus s uid now taskIds st
           = (Inl (ErrorResponse ''Some tasks not found or do not belong to user'' 404), s)"
proof -
  let ?M = "tid ` {t \<in> set (docs s). tid t \<in> set taskIds \<and> user t = uid}"
  have d: "distinct (map tid (docs s))" using assms(1) by (simp add: wf_def)
  have "?M \<subseteq> set taskIds" by auto
  then have "card ?M \<le> card (set taskIds)" by (simp add: card_mono)
  moreover have "card (set taskIds) < length taskIds"
    using assms(2) card_length [of taskIds] card_distinct [of taskIds]
    by (cases "card (set taskIds) = length taskIds") auto
  ultimately have
    "length (filter (\<lambda>t. tid t \<in> set taskIds \<and> user t = uid) (docs s)) \<noteq> length taskIds"
    using matched_card [OF d, of "set taskIds" "\<lambda>t. user t = uid"] by simp
  moreover have "taskIds \<noteq> []" using assms(2) by auto
  ultimately show ?thesis by (simp add: bulkUpdateStatus_def bulkNotFound_def Let_def)
qed

text \<open>
  C10, at a concrete input: user 7 owns tasks 0 and 1 of \<open>bulkStore\<close>, and the list
  0, 1, 0 is rejected.
\<close>

theorem bulk_rejects_duplicates_witness:
  "wf bulkStore \<and> \<not> distinct [0, 1, 0 :: nat] \<and>
   getTask bulkStore 7 0 = Inr (aTask 0 7 Pending 5000 None 1000) \<and>
   getTask bulkStore 7 1 = Inr (aTask 1 7 InProgress 5000 None 1000) \<and>
   bulkUpdateStatus bulkStore 7 2000 [0, 1, 0] Completed
     = (Inl (ErrorResponse ''Some tasks not found or do not belong to user'' 404), bulkStore)"
proof -
  have d: "\<not> distinct [0, 1, 0 :: nat]" by simp
  show ?thesis
    using bulk_rejects_duplicates [OF wf_bulkStore d, of 7 2000 Completed]
      wf_bulkStore d get_bulkStore(1,2)
    by simp
qed

text \<open>
  C4 as stated fails. Task 0 of \<open>bulkStore\<close> is owned by user 7, so every identifier
  of the list 0, 0 resolves to an owned task, and the bulk update is rejected with 404.
  The empty list resolves trivially and is rejected by the validator.
\<close>

theorem bulk_duplicate_ids_counterexample:
  "getTask bulkStore 7 0 = Inr (aTask 0 7 Pending 5000 None 1000) \<and>
   bulkUpdateStatus bulkStore 7 2000 [0, 0] Completed
     = (Inl (ErrorResponse ''Some tasks not found or do not belong to user'' 404), bulkStore) \<and>
   bulkUpdateStatus bulkStore 7 2000 [] Completed = (Inl ValidationFailed, bulkStore)"
  by (simp add: get_bulkStore)
     (simp add: bulkUpdateStatus_def bulkNotFound_def bulkStore_def aTask_def)

text \<open>
  C4, amended. If some identifier of the list does not resolve to a task of the user
  (GET would answer "Task not found"), the bulk update answers 404 and leaves the store
  as it was. If the list is not empty, its identifiers are pairwise distinct and each
  resolves to a task of the user, the update succeeds: the collection keeps its
  documents in place, every document whose identifier is listed gets the new status,
  completedAt set to the time of the request for Completed and to null otherwise, and
  updatedAt; every other document is unchanged; and the count returned is the number of
  documents that differ from what they were.
\<close>

theorem bulk_all_or_nothing:
  assumes "wf s"
  shows "((\<exists>i \<in> set taskIds. getTask s uid i = Inl (ErrorResponse ''Task not found'' 404)) \<longrightarrow>
            bulkUpdateStatus s uid now taskIds st
              = (Inl (ErrorResponse ''Some tasks not found or do not belong to user'' 404), s)) \<and>
         (taskIds \<noteq> [] \<and> distinct taskIds \<and>
          (\<forall>i \<in> set taskIds. getTask s uid i \<noteq> Inl (ErrorResponse ''Task not found'' 404)) \<longrightarrow>
            (\<exists>n s'. bulkUpdateStatus s uid now taskIds st = (Inr n, s') \<and>
                length (docs s') = length (docs s) \<and>
                (\<forall>k < length (docs s).
                   docs s' ! k =
                     (if tid (docs s ! k) \<in> set taskIds
                        then (docs s ! k)\<lparr>status := st,
                               completedAt := (if st = Completed then Some now else None),
                               updatedAt := now\<rparr>
                      else docs s ! k)) \<and>
                n = card {k. k < length (docs s) \<and> docs s' ! k \<noteq> docs s ! k}))"
proof (intro conjI impI)
  assume "\<exists>i \<in> set taskIds. getTask s uid i = Inl (ErrorResponse ''Task not found'' 404)"
  then obtain i where "i \<in> set taskIds" "getTask s uid i = Inl notFound"
    by (auto simp: notFound_def)
  then show "bulkUpdateStatus s uid now taskIds st
               = (Inl (ErrorResponse ''Some tasks not found or do not belong to user'' 404), s)"
    using bulk_missing [OF assms] by (simp add: bulkNotFound_def)
next
  assume h: "taskIds \<noteq> [] \<and> distinct taskIds \<and>
             (\<forall>i \<in> set taskIds. getTask s uid i \<noteq> Inl (ErrorResponse ''Task not found'' 404))"
  then have own: "\<forall>i \<in> set taskIds. getTask s uid i \<noteq> Inl notFound"
    by (simp add: notFound_def)
  let ?P = "\<lambda>t. tid t \<in> set taskIds \<and> user t = uid"
  let ?r = "Task_updateMany s ?P (bulkSet st now)"
  have d: "distinct (map tid (docs s))" using assms by (simp add: wf_def)
  have len: "length (filter ?P (docs s)) = length taskIds"
    using bulk_all_owned [OF assms] h own by blast
  have run: "bulkUpdateStatus s uid now taskIds st = (Inr (fst ?r), snd ?r)"
    using h len by (simp add: bulkUpdateStatus_def Let_def split: prod.splits)
  have l: "length (docs (snd ?r)) = length (docs s)"
    by (simp add: Task_updateMany_def)
  have each: "docs (snd ?r) ! k =
          (if tid (docs s ! k) \<in> set taskIds
             then (docs s ! k)\<lparr>status := st,
                    completedAt := (if st = Completed then Some now else None),
                    updatedAt := now\<rparr>
           else docs s ! k)" if k: "k < length (docs s)" for k
  proof -
    have "tid (docs s ! k) \<in> set taskIds \<Longrightarrow> user (docs s ! k) = uid"
      using owned_user [OF d, of uid "tid (docs s ! k)" "docs s ! k"] own k by auto
    then show ?thesis using k by (auto simp: Task_updateMany_def bulkSet_def)
  qed
  show "\<exists>n s'. bulkUpdateStatus s uid now taskIds st = (Inr n, s') \<and>
                length (docs s') = length (docs s) \<and>
                (\<forall>k < length (docs s).
                   docs s' ! k =
                     (if tid (docs s ! k) \<in> set taskIds
                        then (docs s ! k)\<lparr>status := st,
                               completedAt := (if st = Completed then Some now else None),
                               updatedAt := now\<rparr>
                      else docs s ! k)) \<and>
                n = card {k. k < length (docs s) \<and> docs s' ! k \<noteq> docs s ! k}"
    using run l each updateMany_count [of s ?P "bulkSet st now"] by blast
qed

text \<open>
  C4 amended, at concrete inputs: in \<open>bulkStore\<close> task 2 belongs to user 8, so user 7's
  list 0, 2 is rejected; the list 0, 1 is applied.
\<close>

theorem bulk_all_or_nothing_witness:
  "wf bulkStore \<and> getTask bulkStore 7 2 = Inl (ErrorResponse ''Task not found'' 404) \<and>
   bulkUpdateStatus bulkStore 7 2000 [0, 2] Completed
     = (Inl (ErrorResponse ''Some tasks not found or do not belong to user'' 404), bulkStore) \<and>
   (\<exists>n s'. bulkUpdateStatus bulkStore 7 2000 [0, 1] Completed = (Inr n, s') \<and>
       length (docs s') = length (docs bulkStore) \<and>
       (\<forall>k < length (docs bulkStore).
          docs s' ! k =
            (if tid (docs bulkStore ! k) \<in> set [0, 1]
               then (docs bulkStore ! k)\<lparr>status := Completed,
                      completedAt := (if Completed = Completed then Some 2000 else None),
                      updatedAt := 2000\<rparr>
             else docs bulkStore ! k)) \<and>
       n = card {k. k < length (docs bulkStore) \<and> docs s' ! k \<noteq> docs bulkStore ! k})"
proof -
  have g: "getTask bulkStore 7 2 = Inl (ErrorResponse ''Task not found'' 404)"
    by (simp add: get_bulkStore notFound_def)
  then have a: "\<exists>i \<in> set [0, 2]. getTask bulkStore 7 i = Inl (ErrorResponse ''Task not found'' 404)"
    by simp
  have b: "[0, 1] \<noteq> [] \<and> distinct [0, 1 :: nat] \<and>
           (\<forall>i \<in> set [0, 1]. getTask bulkStore 7 i \<noteq> Inl (ErrorResponse ''Task not found'' 404))"
    by (simp add: getTask_def Task_findOne_def bulkStore_def aTask_def)
  show ?thesis
    using bulk_all_or_nothing [OF wf_bulkStore, of "[0, 2]" 7 2000 Completed]
      bulk_all_or_nothing [OF wf_bulkStore, of "[0, 1]" 7 2000 Completed] a b wf_bulkStore g
    by blast
qed

section \<open>Creating a task\<close>

lemma tag_errors_Nil:
  "list_all (\<lambda>g. length (trim g) \<le> 50) gs \<Longrightarrow>
     concat (map (\<lambda>g. if 50 < length g then [''Tag cannot exceed 50 characters''] else [])
               (map trim gs)) = []"
  by (induction gs) auto

lemma isLength_nonempty: "isLength lo hi s \<Longrightarrow> 0 < lo \<Longrightarrow> s \<noteq> []"
  by (auto simp: isLength_def Let_def)

text \<open>
  A body the route's validators accept passes the schema's validators too when its
  strings are within the schema's limits, which count code units.
\<close>

lemma schema_accepts:
  assumes "validateCreate b"
    and "length (trim (cb_title b)) \<le> 200" and "length (trim (cb_description b)) \<le> 1000"
    and "list_all (\<lambda>g. length (trim g) \<le> 50) (case cb_tags b of None \<Rightarrow> [] | Some gs \<Rightarrow> gs)"
    and "vt < cb_deadline b"
  shows "schemaErrors vt
           \<lparr>tid = i, user = uid, title = trim (cb_title b),
            description = trim (cb_description b),
            status = st, deadline = cb_deadline b, priority = pr,
            tags = (case cb_tags b of None \<Rightarrow> [] | Some gs \<Rightarrow> map trim gs),
            completedAt = c, createdAt = cr, updatedAt = up\<rparr> = []"
proof -
  have "trim (cb_title b) \<noteq> []" "trim (cb_description b) \<noteq> []"
    using assms(1) isLength_nonempty [of 1 200 "trim (cb_title b)"]
      isLength_nonempty [of 1 1000 "trim (cb_description b)"]
    by (simp_all add: validateCreate_def)
  moreover have "concat (map (\<lambda>g. if 50 < length g then [''Tag cannot exceed 50 characters''] else [])
               (case cb_tags b of None \<Rightarrow> [] | Some gs \<Rightarrow> map trim gs)) = []"
  proof (cases "cb_tags b")
    case None
    then show ?thesis by simp
  next
    case (Some gs)
    then have "list_all (\<lambda>g. length (trim g) \<le> 50) gs"
      using assms(4) by simp
    then show ?thesis using Some by (simp only: option.case tag_errors_Nil)
  qed
  ultimately show ?thesis using assms(2,3,5) by (simp add: schemaErrors_def)
qed

lemma trim_id:
  assumes "s \<noteq> []" and "\<not> isWhiteSpace (hd s)" and "\<not> isWhiteSpace (last s)"
  shows "trim s = s"
proof -
  have a: "dropWhile isWhiteSpace s = s"
    using assms(1,2) by (cases s) auto
  have "rev s \<noteq> []" "\<not> isWhiteSpace (hd (rev s))"
    using assms(1,3) by (simp_all add: hd_rev)
  then have "dropWhile isWhiteSpace (rev s) = rev s"
    by (cases "rev s") auto
  with a show ?thesis by (simp add: trim_def)
qed

lemma astral_Suc: "astral (Suc n) = [0xD83D, 0xDE00] @ astral n"
  by (simp add: astral_def)

lemma astral_snoc: "astral (Suc n) = astral n @ [0xD83D, 0xDE00]"
  by (induction n) (simp_all add: astral_def)

lemma length_astral: "length (astral n) = 2 * n"
  by (induction n) (simp_all add: astral_def)

lemma pairs_astral: "surrogatePairs (astral n) = n"
  by (induction n) (simp_all add: astral_def)

lemma selectors_astral: "presentationSequences (astral n) = 0"
  by (induction n) (simp_all add: astral_def presentationSequences_def)

lemma trim_astral: "trim (astral (Suc n)) = astral (Suc n)"
proof (rule trim_id)
  show "astral (Suc n) \<noteq> []" by (simp add: astral_Suc)
  show "\<not> isWhiteSpace (hd (astral (Suc n)))" by (simp add: astral_Suc isWhiteSpace_def)
  show "\<not> isWhiteSpace (last (astral (Suc n)))"
    by (simp only: astral_snoc) (simp add: isWhiteSpace_def)
qed

lemma astral_101:
  "trim (astral 101) = astral 101" "length (astral 101) = 202"
  "isLength 1 200 (astral 101)"
proof -
  have "(101::nat) = Suc 100" by simp
  then show "trim (astral 101) = astral 101" using trim_astral [of 100] by simp
  show "length (astral 101) = 202" by (simp add: length_astral)
  show "isLength 1 200 (astral 101)"
    by (simp add: isLength_def length_astral pairs_astral selectors_astral)
qed

lemma create_completedAtBody:
  "createTask emptyStore 7 1000 completedAtBody
     = (Inr (aTask 0 7 Pending 5000 (Some 500) 1000),
        \<lparr>docs = [aTask 0 7 Pending 5000 (Some 500) 1000], nextId = 1\<rparr>)"
proof -
  have "validateCreate completedAtBody"
    using valid_reportBody by (simp add: validateCreate_def completedAtBody_def)
  then show ?thesis
    by (simp add: createTask_def createTaskAt_def Task_create_def schemaErrors_def preSave_def
        emptyStore_def aTask_def Let_def)
       (simp add: completedAtBody_def reportBody_def trim_def isWhiteSpace_def js_def)
qed

lemma valid_astralBody: "validateCreate astralBody"
proof -
  have "isLength 1 200 (trim (astral 101))"
    by (simp only: astral_101)
  moreover have "isLength 1 1000 (trim (js ''Quarterly figures''))"
    by (simp add: isLength_def presentationSequences_def trim_def isWhiteSpace_def js_def)
  ultimately show ?thesis
    by (simp add: validateCreate_def validTags_def astralBody_def reportBody_def)
qed

lemma create_astralBody:
  "createTask emptyStore 7 1000 astralBody
     = (Inl (ValidationError [''Title cannot exceed 200 characters'']), emptyStore)"
proof -
  note v = valid_astralBody
  have t: "cb_title astralBody = astral 101" "cb_deadline astralBody = 5000"
    "cb_description astralBody = js ''Quarterly figures''" "cb_tags astralBody = None"
    by (simp_all add: astralBody_def reportBody_def)
  have n: "astral 101 \<noteq> []" using astral_101(2) by auto
  show ?thesis
    using v n
    by (simp add: createTask_def createTaskAt_def Task_create_def schemaErrors_def Let_def
        t astral_101 trim_Quarterly)
       (simp add: js_def)
qed

lemma create_tightBody:
  "createTaskAt emptyStore 7 1000 \<lparr>validatedAt = 1001, stampedAt = 1001, hookAt = 1001\<rparr> tightBody
     = (Inl (ValidationError [''Deadline must be in the future'']), emptyStore)"
proof -
  have "validateCreate tightBody"
    using valid_reportBody by (simp add: validateCreate_def tightBody_def)
  then show ?thesis
    by (simp add: createTaskAt_def Task_create_def schemaErrors_def Let_def)
       (simp add: tightBody_def reportBody_def trim_def isWhiteSpace_def js_def)
qed

text \<open>
  C5 as stated fails, in four ways. Each body below has a valid title and description
  and a deadline after the time of the request (1000).
  \<^item> \<open>longTagBody\<close> is turned away with "Validation failed" (400): one of its tags has
    51 characters.
  \<^item> \<open>completedAtBody\<close> supplies no status and carries \<^verbatim>\<open>completedAt\<close> 500: the
    task is created Pending with completedAt 500, since the handler passes the whole
    body to \<^verbatim>\<open>Task.create\<close>.
  \<^item> \<open>astralBody\<close> has a title of 101 characters that are 202 code units: the route's
    \<^verbatim>\<open>isLength\<close> counts 101, the schema's \<^verbatim>\<open>maxlength\<close> counts 202 and rejects the
    document.
  \<^item> \<open>tightBody\<close> has deadline 1001: the handler's check at 1000 passes, and the
    schema's validator, reading the clock at 1001, rejects the document.
\<close>

theorem create_counterexample:
  "isLength 1 200 (trim (cb_title longTagBody)) \<and>
   isLength 1 1000 (trim (cb_description longTagBody)) \<and>
   1000 < cb_deadline longTagBody \<and>
   createTask emptyStore 7 1000 longTagBody = (Inl ValidationFailed, emptyStore) \<and>
   validateCreate completedAtBody \<and> 1000 < cb_deadline completedAtBody \<and>
   cb_status completedAtBody = None \<and>
   createTask emptyStore 7 1000 completedAtBody
     = (Inr \<lparr>tid = 0, user = 7, title = js ''Report'', description = js ''Quarterly figures'',
             status = Pending, deadline = 5000, priority = Medium, tags = [],
             completedAt = Some 500, createdAt = 1000, updatedAt = 1000\<rparr>,
        \<lparr>docs = [aTask 0 7 Pending 5000 (Some 500) 1000], nextId = 1\<rparr>) \<and>
   validateCreate astralBody \<and> 1000 < cb_deadline astralBody \<and>
   createTask emptyStore 7 1000 astralBody
     = (Inl (ValidationError [''Title cannot exceed 200 characters'']), emptyStore) \<and>
   validateCreate tightBody \<and> 1000 < cb_deadline tightBody \<and>
   createTaskAt emptyStore 7 1000 \<lparr>validatedAt = 1001, stampedAt = 1001, hookAt = 1001\<rparr> tightBody
     = (Inl (ValidationError [''Deadline must be in the future'']), emptyStore)"
proof -
  have a: "isLength 1 200 (trim (cb_title longTagBody)) \<and>
     isLength 1 1000 (trim (cb_description longTagBody)) \<and>
     1000 < cb_deadline longTagBody \<and>
     createTask emptyStore 7 1000 longTagBody = (Inl ValidationFailed, emptyStore)"
    by (simp add: createTask_def createTaskAt_def validateCreate_def validTags_def isLength_def
        presentationSequences_def longTagBody_def reportBody_def trim_def isWhiteSpace_def js_def)
  have b: "validateCreate completedAtBody \<and> 1000 < cb_deadline completedAtBody \<and>
     cb_status completedAtBody = None"
    using valid_reportBody by (simp add: validateCreate_def completedAtBody_def reportBody_def)
  have c: "validateCreate astralBody \<and> 1000 < cb_deadline astralBody"
    using valid_astralBody by (simp add: astralBody_def reportBody_def)
  have d: "validateCreate tightBody \<and> 1000 < cb_deadline tightBody"
    using valid_reportBody by (simp add: validateCreate_def tightBody_def)
  have e: "aTask 0 7 Pending 5000 (Some 500) 1000
             = \<lparr>tid = 0, user = 7, title = js ''Report'', description = js ''Quarterly figures'',
                status = Pending, deadline = 5000, priority = Medium, tags = [],
                completedAt = Some 500, createdAt = 1000, updatedAt = 1000\<rparr>"
    by (simp add: aTask_def)
  from a b c d create_completedAtBody create_astralBody create_tightBody
  show ?thesis by (simp only: e simp_thms)
qed

text \<open>
  C5, amended. Take a body that carries only the six validated keys, that the route's
  validators accept, and whose title, description and tags are, after trimming, within
  the schema's limits of 200, 1000 and 50 code units. When the deadline is not after the
  instant \<open>now\<close> of the handler's check, the answer is "Deadline must be in the future"
  (400) and the store is as it was. When the deadline is after that instant and after
  the instant at which the schema's validator reads the clock, the answer is the created
  task, appended to the collection under a fresh identifier, and it has status Pending
  and completedAt null when no status was supplied, and priority Medium when no
  priority was supplied.
\<close>

theorem create_deadline_check:
  assumes "validateCreate b"
    and "length (trim (cb_title b)) \<le> 200" and "length (trim (cb_description b)) \<le> 1000"
    and "list_all (\<lambda>g. length (trim g) \<le> 50) (case cb_tags b of None \<Rightarrow> [] | Some gs \<Rightarrow> gs)"
    and "cb_id b = None" and "cb_completedAt b = None"
  shows "(cb_deadline b \<le> now \<longrightarrow>
            createTaskAt s uid now clk b
              = (Inl (ErrorResponse ''Deadline must be in the future'' 400), s)) \<and>
         (now < cb_deadline b \<and> validatedAt clk < cb_deadline b \<longrightarrow>
            (\<exists>t. createTaskAt s uid now clk b
                    = (Inr t, s\<lparr>docs := docs s @ [t], nextId := Suc (nextId s)\<rparr>) \<and>
                 tid t = nextId s \<and> user t = uid \<and> deadline t = cb_deadline b \<and>
                 title t = trim (cb_title b) \<and> description t = trim (cb_description b) \<and>
                 (cb_status b = None \<longrightarrow> status t = Pending \<and> completedAt t = None) \<and>
                 (cb_priority b = None \<longrightarrow> priority t = Medium)))"
proof (intro conjI impI)
  assume "cb_deadline b \<le> now"
  then show "createTaskAt s uid now clk b
               = (Inl (ErrorResponse ''Deadline must be in the future'' 400), s)"
    using assms(1) by (simp add: createTaskAt_def deadlineError_def)
next
  assume fut: "now < cb_deadline b \<and> validatedAt clk < cb_deadline b"
  let ?doc = "\<lparr>tid = nextId s, user = uid, title = trim (cb_title b),
                description = trim (cb_description b),
                status = (case cb_status b of None \<Rightarrow> Pending | Some x \<Rightarrow> x),
                deadline = cb_deadline b,
                priority = (case cb_priority b of None \<Rightarrow> Medium | Some x \<Rightarrow> x),
                tags = (case cb_tags b of None \<Rightarrow> [] | Some gs \<Rightarrow> map trim gs),
                completedAt = None, createdAt = stampedAt clk, updatedAt = stampedAt clk\<rparr>"
  let ?t = "preSave (cb_status b \<noteq> None) (hookAt clk) ?doc"
  have ok: "schemaErrors (validatedAt clk) ?doc = []"
    using assms(1-4) fut by (intro schema_accepts) simp_all
  have run: "createTaskAt s uid now clk b
               = (Inr ?t, s\<lparr>docs := docs s @ [?t], nextId := Suc (nextId s)\<rparr>)"
    using assms(1,5,6) fut ok by (simp add: createTaskAt_def Task_create_def Let_def)
  show "\<exists>t. createTaskAt s uid now clk b
                    = (Inr t, s\<lparr>docs := docs s @ [t], nextId := Suc (nextId s)\<rparr>) \<and>
                 tid t = nextId s \<and> user t = uid \<and> deadline t = cb_deadline b \<and>
                 title t = trim (cb_title b) \<and> description t = trim (cb_description b) \<and>
                 (cb_status b = None \<longrightarrow> status t = Pending \<and> completedAt t = None) \<and>
                 (cb_priority b = None \<longrightarrow> priority t = Medium)"
  proof (intro exI conjI)
    show "createTaskAt s uid now clk b
            = (Inr ?t, s\<lparr>docs := docs s @ [?t], nextId := Suc (nextId s)\<rparr>)"
      by (rule run)
  qed (simp_all add: preSave_def)
qed

lemma limits_reportBody:
  "length (trim (cb_title reportBody)) \<le> 200"
  "length (trim (cb_description reportBody)) \<le> 1000"
  "list_all (\<lambda>g. length (trim g) \<le> 50) (case cb_tags reportBody of None \<Rightarrow> [] | Some gs \<Rightarrow> gs)"
  "cb_id reportBody = None" "cb_completedAt reportBody = None"
  by (simp_all add: reportBody_def trim_def isWhiteSpace_def js_def)

text \<open>
  C5 amended, at concrete inputs: \<open>reportBody\<close> has deadline 5000; a request checked at
  time 5000 is refused, a request checked at time 1000 and validated at time 1002
  creates the task with the defaults.
\<close>

theorem create_deadline_check_witness:
  "validateCreate reportBody \<and>
   createTaskAt emptyStore 7 5000 \<lparr>validatedAt = 5001, stampedAt = 5001, hookAt = 5002\<rparr> reportBody
     = (Inl (ErrorResponse ''Deadline must be in the future'' 400), emptyStore) \<and>
   (\<exists>t. createTaskAt emptyStore 7 1000 \<lparr>validatedAt = 1002, stampedAt = 1002, hookAt = 1003\<rparr>
           reportBody
           = (Inr t, emptyStore\<lparr>docs := docs emptyStore @ [t],
                                nextId := Suc (nextId emptyStore)\<rparr>) \<and>
        status t = Pending \<and> completedAt t = None \<and> priority t = Medium)"
proof -
  have d: "cb_deadline reportBody = 5000" "cb_status reportBody = None"
    "cb_priority reportBody = None"
    by (simp_all add: reportBody_def)
  note inst = create_deadline_check [OF valid_reportBody limits_reportBody]
  show ?thesis
    using inst [where now = 5000 and s = emptyStore and uid = 7
                  and clk = "\<lparr>validatedAt = 5001, stampedAt = 5001, hookAt = 5002\<rparr>"]
      inst [where now = 1000 and s = emptyStore and uid = 7
              and clk = "\<lparr>validatedAt = 1002, stampedAt = 1002, hookAt = 1003\<rparr>"]
      valid_reportBody d
    by simp blast
qed

section \<open>Integers as doubles\<close>









section \<open>Pages of the task list\<close>






section \<open>The overdue filter\<close>

lemma matches_overdue:
  "f_overdue f \<Longrightarrow> matches (buildQuery uid now f) t \<Longrightarrow> status t \<noteq> Completed \<and> deadline t < now"
  by (auto simp: buildQuery_def matches_def Let_def split: option.splits)

lemma set_page: "set (take n (drop m xs)) \<subseteq> set xs"
  by (meson in_set_dropD in_set_takeD subsetI)

lemma list_overdueStore:
  "listTasks overdueStore 7 1000 overdueOnly
     = Inr \<lparr>r_count = 1, r_total = 1, r_next = None, r_prev = None,
             r_tasks = [aTask 1 7 Pending 500 None 100]\<rparr>"
  by (simp add: listTasks_def listTasksWith_def validateList_def isBoolean_def overdueOnly_def
      parseIntOr_def js_int_0 js_int_25
      buildQuery_def buildFilters_def Task_countDocuments_def Task_find_def matches_def
      sortTasks_def overdueStore_def aTask_def Let_def)

text \<open>
  C8. A list request with \<^verbatim>\<open>overdue=true\<close> that the validators accept is answered
  with a page, and no task of the page is Completed, whatever the other parameters are.
  The same holds for the model's \<^verbatim>\<open>getUserTasks\<close> with the overdue filter set.
\<close>

theorem overdue_excludes_completed:
  assumes "validateList q" and "q_overdue q = Some ''true''"
  shows "(\<exists>r. listTasks s uid now q = Inr r \<and> (\<forall>t \<in> set (r_tasks r). status t \<noteq> Completed)) \<and>
         (f_overdue f \<longrightarrow> (\<forall>t \<in> set (getUserTasks s uid now f). status t \<noteq> Completed))"
proof
  let ?Q = "buildQuery uid now (buildFilters q)"
  let ?found = "take (nat (parseIntOr (q_limit q) 25))
                  (drop (nat (js_int (js_int (parseIntOr (q_page q) 1 - 1)
                                        * parseIntOr (q_limit q) 25)))
                     (sortTasks (Task_find s ?Q)))"
  have ov: "f_overdue (buildFilters q)" using assms(2) by (simp add: buildFilters_def)
  have "set ?found \<subseteq> set (Task_find s ?Q)"
    using set_page [of _ _ "sortTasks (Task_find s ?Q)"] by (simp add: sortTasks_def)
  then have nc: "\<forall>t \<in> set ?found. status t \<noteq> Completed"
    using matches_overdue [OF ov] by (auto simp: Task_find_def)
  obtain r where r: "listTasks s uid now q = Inr r" "r_tasks r = ?found"
    using assms(1) by (simp add: listTasks_def listTasksWith_def Let_def)
  from nc r(2) have "\<forall>t \<in> set (r_tasks r). status t \<noteq> Completed" by simp
  with r(1) show "\<exists>r. listTasks s uid now q = Inr r \<and> (\<forall>t \<in> set (r_tasks r). status t \<noteq> Completed)"
    by blast
next
  show "f_overdue f \<longrightarrow> (\<forall>t \<in> set (getUserTasks s uid now f). status t \<noteq> Completed)"
  proof (intro impI ballI)
    fix t assume f: "f_overdue f" and t: "t \<in> set (getUserTasks s uid now f)"
    have "getUserTasks s uid now f = sortTasks (Task_find s (buildQuery uid now f))"
      by (simp add: getUserTasks_def buildQuery_def Let_def)
    with t have "matches (buildQuery uid now f) t"
      by (simp add: sortTasks_def Task_find_def)
    with f show "status t \<noteq> Completed" using matches_overdue by blast
  qed
qed

lemma getUserTasks_overdueStore:
  "getUserTasks overdueStore 7 1000 overdueFilters = [aTask 1 7 Pending 500 None 100]"
  by (simp add: getUserTasks_def overdueFilters_def Task_find_def matches_def
      sortTasks_def overdueStore_def aTask_def Let_def)

text \<open>
  C8, at a concrete input: of the two tasks of \<open>overdueStore\<close>, both past their
  deadline at time 1000, only the Pending one is listed, by the route and by
  \<^verbatim>\<open>getUserTasks\<close>.
\<close>

theorem overdue_excludes_completed_witness:
  "validateList overdueOnly \<and> q_overdue overdueOnly = Some ''true'' \<and>
   (\<exists>r. listTasks overdueStore 7 1000 overdueOnly = Inr r \<and> r_count r = 1 \<and>
        list_all (\<lambda>t. status t \<noteq> Completed) (r_tasks r)) \<and>
   f_overdue overdueFilters \<and>
   length (getUserTasks overdueStore 7 1000 overdueFilters) = 1 \<and>
   list_all (\<lambda>t. status t \<noteq> Completed) (getUserTasks overdueStore 7 1000 overdueFilters)"
proof -
  have v: "validateList overdueOnly" and o: "q_overdue overdueOnly = Some ''true''"
    by (simp_all add: validateList_def isBoolean_def overdueOnly_def)
  have f: "f_overdue overdueFilters" by (simp add: overdueFilters_def)
  note inst = overdue_excludes_completed [OF v o, of overdueStore 7 1000 overdueFilters]
  obtain r where r: "listTasks overdueStore 7 1000 overdueOnly = Inr r"
      "\<forall>t \<in> set (r_tasks r). status t \<noteq> Completed"
    using inst by blast
  from r(1) have "r = \<lparr>r_count = 1, r_total = 1, r_next = None, r_prev = None,
                      r_tasks = [aTask 1 7 Pending 500 None 100]\<rparr>"
    by (simp only: list_overdueStore sum.inject)
  then have c: "r_count r = 1" by simp
  have g: "\<forall>t \<in> set (getUserTasks overdueStore 7 1000 overdueFilters). status t \<noteq> Completed"
    using inst f by blast
  have n: "length (getUserTasks overdueStore 7 1000 overdueFilters) = 1"
    by (simp add: getUserTasks_overdueStore)
  from r c v o f g n show ?thesis by (auto simp: list_all_iff)
qed

end
